theory Spec2Isabelle
  imports Main
begin

section \<open>The plugin framework's values, diagnostics and decoded data\<close>

text \<open>
  The provider is written against the Terraform plugin framework. The parts of the
  framework that the provider's code calls are modelled here as far as the code depends
  on them.

  A framework attribute value (\<^verbatim>\<open>types.String\<close>, \<^verbatim>\<open>types.Bool\<close>) is null, unknown or a
  known value. \<^verbatim>\<open>ValueString\<close> and \<^verbatim>\<open>ValueBool\<close> return the known value, and the Go zero
  value (the empty string, \<^verbatim>\<open>false\<close>) when the attribute is null or unknown.
\<close>

datatype tf_String = StringNull | StringUnknown | StringValue string

datatype tf_Bool = BoolNull | BoolUnknown | BoolValue bool

fun String_IsNull :: "tf_String \<Rightarrow> bool" where
  "String_IsNull StringNull = True"
| "String_IsNull StringUnknown = False"
| "String_IsNull (StringValue s) = False"

fun String_IsUnknown :: "tf_String \<Rightarrow> bool" where
  "String_IsUnknown StringNull = False"
| "String_IsUnknown StringUnknown = True"
| "String_IsUnknown (StringValue s) = False"

fun ValueString :: "tf_String \<Rightarrow> string" where
  "ValueString StringNull = []"
| "ValueString StringUnknown = []"
| "ValueString (StringValue s) = s"

fun ValueBool :: "tf_Bool \<Rightarrow> bool" where
  "ValueBool BoolNull = False"
| "ValueBool BoolUnknown = False"
| "ValueBool (BoolValue b) = b"

text \<open>
  Diagnostics. A diagnostic is an error or a warning with a summary and a detail, and
  optionally the path of the attribute it is about (\<^verbatim>\<open>path.Root("host")\<close> is the
  one-step path \<open>[''host'']\<close>). \<^verbatim>\<open>Append\<close> skips a diagnostic that the collection
  already contains; \<^verbatim>\<open>AddError\<close> and \<^verbatim>\<open>AddAttributeError\<close> append one error.
\<close>

datatype Severity = SeverityError | SeverityWarning

datatype Diagnostic =
    ErrorDiagnostic string string
  | WarningDiagnostic string string
  | AttributeErrorDiagnostic "string list" string string
  | AttributeWarningDiagnostic "string list" string string

fun Diagnostic_Severity :: "Diagnostic \<Rightarrow> Severity" where
  "Diagnostic_Severity (ErrorDiagnostic s d) = SeverityError"
| "Diagnostic_Severity (WarningDiagnostic s d) = SeverityWarning"
| "Diagnostic_Severity (AttributeErrorDiagnostic p s d) = SeverityError"
| "Diagnostic_Severity (AttributeWarningDiagnostic p s d) = SeverityWarning"

fun HasError :: "Diagnostic list \<Rightarrow> bool" where
  "HasError [] = False"
| "HasError (d # ds) = (if Diagnostic_Severity d = SeverityError then True else HasError ds)"

fun Contains :: "Diagnostic list \<Rightarrow> Diagnostic \<Rightarrow> bool" where
  "Contains [] x = False"
| "Contains (d # ds) x = (if d = x then True else Contains ds x)"

fun Append :: "Diagnostic list \<Rightarrow> Diagnostic list \<Rightarrow> Diagnostic list" where
  "Append diags [] = diags"
| "Append diags (d # ds) =
     (if Contains diags d then Append diags ds else Append (diags @ [d]) ds)"

definition AddError :: "Diagnostic list \<Rightarrow> string \<Rightarrow> string \<Rightarrow> Diagnostic list" where
  "AddError diags summary detail = Append diags [ErrorDiagnostic summary detail]"

definition AddAttributeError ::
  "Diagnostic list \<Rightarrow> string list \<Rightarrow> string \<Rightarrow> string \<Rightarrow> Diagnostic list" where
  "AddAttributeError diags p summary detail =
     Append diags [AttributeErrorDiagnostic p summary detail]"

text \<open>
  \<^verbatim>\<open>req.Config.Get\<close>, \<^verbatim>\<open>req.Plan.Get\<close> and \<^verbatim>\<open>req.State.Get\<close> decode the host's data
  into a Go struct and return diagnostics. The decoding is the framework's; a request
  carries its outcome: the diagnostics that \<^verbatim>\<open>Get\<close> returns and the struct it fills.
\<close>

datatype 'm Decoded = Decoded (Get_diags: "Diagnostic list") (Get_target: 'm)

text \<open>
  A Go \<^verbatim>\<open>error\<close> that is not nil is represented by the text of \<^verbatim>\<open>err.Error()\<close>; a call
  returning \<^verbatim>\<open>(v, err)\<close> is a sum, \<open>Inl\<close> the error.
\<close>

type_synonym go_error = string

text \<open>
  The request bodies of the todo client library, with the fields that the provider
  sets. The fields of an update body are pointers in Go: \<open>None\<close> is the nil pointer, a
  field that is left out of the request.
\<close>

record TodoCreateParams =
  Text :: string
  Priority :: string

record TodoUpdateParams =
  Text :: "string option"
  Priority :: "string option"
  Completed :: "bool option"

text \<open>
  The calls that the provider makes into the todo client library, in the order made.
  Every operation returns this log beside its response, so that what is sent to the API
  can be stated.
\<close>

datatype lib_call =
    Call_NewClient string
  | Call_ListTodos
  | Call_CreateTodo TodoCreateParams
  | Call_GetTodo string
  | Call_UpdateTodo string TodoUpdateParams
  | Call_DeleteTodo string

section \<open>Provider configuration (todo/provider.go)\<close>

record todoProviderModel =
  Host :: tf_String

record ConfigureRequest =
  Config :: "todoProviderModel Decoded"

record 'c ConfigureResponse =
  Diagnostics :: "Diagnostic list"
  DataSourceData :: "'c option"
  ResourceData :: "'c option"

text \<open>\<^verbatim>\<open>os.Getenv\<close>: the value of the variable, empty when it is not set.\<close>

definition Getenv :: "(string \<rightharpoonup> string) \<Rightarrow> string \<Rightarrow> string" where
  "Getenv env k = (case env k of None \<Rightarrow> [] | Some v \<Rightarrow> v)"

definition unknown_host_detail :: string where
  "unknown_host_detail =
     ''The provider cannot create the todo API client as there is an unknown configuration value for the todo API host. '' @
     ''Either target apply the source of the value first, set the value statically in the configuration, or use the TODO_HOST environment variable.''"

definition missing_host_detail :: string where
  "missing_host_detail =
     ''The provider cannot create the todo API client as there is a missing or empty value for the todo API host. '' @
     ''Set the host value in the configuration or use the TODO_HOST environment variable. '' @
     ''If either is already set, ensure the value is not empty.''"

definition client_error_detail :: "go_error \<Rightarrow> string" where
  "client_error_detail err =
     ''An unexpected error occurred when creating the todo API client. '' @
     ''If the error is not clear, please contact the provider developers.'' @
     [CHR 0x0A, CHR 0x0A] @
     ''todo client error: '' @ err"

text \<open>
  \<^verbatim>\<open>todoProvider.Configure\<close>. The process environment and the library's \<^verbatim>\<open>NewClient\<close>
  are parameters; the response is passed in and returned. Logging is left out.
\<close>

definition todoProvider_Configure ::
  "(string \<rightharpoonup> string) \<Rightarrow> (string \<Rightarrow> go_error + 'c) \<Rightarrow> ConfigureRequest \<Rightarrow>
   'c ConfigureResponse \<Rightarrow> lib_call list \<times> 'c ConfigureResponse" where
  "todoProvider_Configure env NewClient req resp =
     (let config = Get_target (Config req);
          resp1 = resp\<lparr>ConfigureResponse.Diagnostics :=
                    Append (ConfigureResponse.Diagnostics resp) (Get_diags (Config req))\<rparr>
      in if HasError (ConfigureResponse.Diagnostics resp1) then ([], resp1)
         else
           let resp2 =
                 (if String_IsUnknown (Host config)
                  then resp1\<lparr>ConfigureResponse.Diagnostics :=
                         AddAttributeError (ConfigureResponse.Diagnostics resp1) [''host'']
                           ''Unknown todo API host'' unknown_host_detail\<rparr>
                  else resp1)
           in if HasError (ConfigureResponse.Diagnostics resp2) then ([], resp2)
              else
                let host0 = Getenv env ''TODO_HOST'';
                    host = (if \<not> String_IsNull (Host config)
                            then ValueString (Host config) else host0);
                    resp3 =
                      (if host = []
                       then resp2\<lparr>ConfigureResponse.Diagnostics :=
                              AddAttributeError (ConfigureResponse.Diagnostics resp2) [''host'']
                                ''Missing todo API host'' missing_host_detail\<rparr>
                       else resp2)
                in if HasError (ConfigureResponse.Diagnostics resp3) then ([], resp3)
                   else
                     (case NewClient host of
                        Inl err \<Rightarrow>
                          ([Call_NewClient host],
                           resp3\<lparr>ConfigureResponse.Diagnostics :=
                             AddError (ConfigureResponse.Diagnostics resp3)
                               ''Unable to create todo API client'' (client_error_detail err)\<rparr>)
                      | Inr client \<Rightarrow>
                          ([Call_NewClient host],
                           resp3\<lparr>DataSourceData := Some client, ResourceData := Some client\<rparr>)))"

section \<open>The todo client library\<close>

text \<open>
  The client library is a collaborator outside this repository. A todo item carries a
  UUID and two times, of which the provider only uses the \<^verbatim>\<open>String()\<close> rendering; their
  types are the parameters \<open>'u\<close> and \<open>'t\<close>, and the two renderings are passed to every
  operation as \<open>uuid_String\<close> and \<open>time_String\<close>. \<^verbatim>\<open>Priority\<close> is a Go string type.
  The client is the record of its five methods; what it answers is not constrained.
\<close>

record ('u, 't) Todo =
  ID :: 'u
  Text :: string
  Priority :: string
  Completed :: bool
  TimeCreated :: 't
  TimeUpdated :: 't

record ('u, 't) Client =
  ListTodos :: "go_error + ('u, 't) Todo list"
  CreateTodo :: "TodoCreateParams \<Rightarrow> go_error + ('u, 't) Todo"
  GetTodo :: "string \<Rightarrow> go_error + ('u, 't) Todo"
  UpdateTodo :: "string \<Rightarrow> TodoUpdateParams \<Rightarrow> go_error + ('u, 't) Todo"
  DeleteTodo :: "string \<Rightarrow> go_error option"

text \<open>
  Modelled from the spec: the constant \<^verbatim>\<open>todo.PriorityLow\<close> of the client library, which is
  not part of the sources; the specification gives the default priority as "low".
\<close>

definition PriorityLow :: string where
  "PriorityLow = ''low''"

section \<open>The todo resource\<close>

record todoResourceModel =
  ID :: tf_String
  Text :: tf_String
  Priority :: tf_String
  Completed :: tf_Bool
  TimeCreated :: tf_String
  TimeUpdated :: tf_String

text \<open>
  The state of a response is absent (\<open>None\<close>) or holds a value of the model.
  \<^verbatim>\<open>resp.State.Set\<close> is the framework's: for a value of the schema's own struct type it
  stores the value and returns no diagnostics.
\<close>

definition State_Set :: "'m \<Rightarrow> 'm option \<times> Diagnostic list" where
  "State_Set v = (Some v, [])"

record CreateRequest =
  Plan :: "todoResourceModel Decoded"

record CreateResponse =
  State :: "todoResourceModel option"
  Diagnostics :: "Diagnostic list"

record ReadRequest =
  State :: "todoResourceModel Decoded"

record ReadResponse =
  State :: "todoResourceModel option"
  Diagnostics :: "Diagnostic list"

text \<open>
  An update request also carries the prior state of the resource. \<^verbatim>\<open>Update\<close> does not
  read it; the field is kept so that this can be stated.
\<close>

record UpdateRequest =
  Plan :: "todoResourceModel Decoded"
  State :: "todoResourceModel Decoded"

record UpdateResponse =
  State :: "todoResourceModel option"
  Diagnostics :: "Diagnostic list"

record DeleteRequest =
  State :: "todoResourceModel Decoded"

record DeleteResponse =
  State :: "todoResourceModel option"
  Diagnostics :: "Diagnostic list"

text \<open>\<^verbatim>\<open>todoResource.Create\<close>, with \<^verbatim>\<open>r.client\<close> the configured client.\<close>

definition todoResource_Create ::
  "('u \<Rightarrow> string) \<Rightarrow> ('t \<Rightarrow> string) \<Rightarrow> ('u, 't) Client \<Rightarrow> CreateRequest \<Rightarrow>
   CreateResponse \<Rightarrow> lib_call list \<times> CreateResponse" where
  "todoResource_Create uuid_String time_String client req resp =
     (let plan = Get_target (CreateRequest.Plan req);
          resp1 = resp\<lparr>CreateResponse.Diagnostics :=
                    Append (CreateResponse.Diagnostics resp) (Get_diags (CreateRequest.Plan req))\<rparr>
      in if HasError (CreateResponse.Diagnostics resp1) then ([], resp1)
         else
           let priority0 = ValueString (todoResourceModel.Priority plan);
               priority = (if priority0 = [] then PriorityLow else priority0);
               params = \<lparr>TodoCreateParams.Text = ValueString (todoResourceModel.Text plan),
                         TodoCreateParams.Priority = priority\<rparr>
           in (case CreateTodo client params of
                 Inl err \<Rightarrow>
                   ([Call_CreateTodo params],
                    resp1\<lparr>CreateResponse.Diagnostics :=
                      AddError (CreateResponse.Diagnostics resp1) ''Error creating todo''
                        (''Could not create todo, unexpected error: '' @ err)\<rparr>)
               | Inr td \<Rightarrow>
                   let plan1 = plan\<lparr>
                         todoResourceModel.ID := StringValue (uuid_String (Todo.ID td)),
                         todoResourceModel.Text := StringValue (Todo.Text td),
                         todoResourceModel.Priority := StringValue (Todo.Priority td),
                         todoResourceModel.Completed := BoolValue (Todo.Completed td),
                         todoResourceModel.TimeCreated := StringValue (time_String (Todo.TimeCreated td)),
                         todoResourceModel.TimeUpdated := StringValue (time_String (Todo.TimeUpdated td))\<rparr>;
                       set = State_Set plan1
                   in ([Call_CreateTodo params],
                       resp1\<lparr>CreateResponse.State := fst set,
                             CreateResponse.Diagnostics :=
                               Append (CreateResponse.Diagnostics resp1) (snd set)\<rparr>)))"

text \<open>\<^verbatim>\<open>todoResource.Read\<close>.\<close>

definition todoResource_Read ::
  "('u \<Rightarrow> string) \<Rightarrow> ('t \<Rightarrow> string) \<Rightarrow> ('u, 't) Client \<Rightarrow> ReadRequest \<Rightarrow>
   ReadResponse \<Rightarrow> lib_call list \<times> ReadResponse" where
  "todoResource_Read uuid_String time_String client req resp =
     (let state = Get_target (ReadRequest.State req);
          resp1 = resp\<lparr>ReadResponse.Diagnostics :=
                    Append (ReadResponse.Diagnostics resp) (Get_diags (ReadRequest.State req))\<rparr>
      in if HasError (ReadResponse.Diagnostics resp1) then ([], resp1)
         else
           let id = ValueString (todoResourceModel.ID state)
           in (case GetTodo client id of
                 Inl err \<Rightarrow>
                   ([Call_GetTodo id],
                    resp1\<lparr>ReadResponse.Diagnostics :=
                      AddError (ReadResponse.Diagnostics resp1) ''Error reading todo''
                        (''Could not read todo ID '' @ id @ '': '' @ err)\<rparr>)
               | Inr td \<Rightarrow>
                   let state1 = state\<lparr>
                         todoResourceModel.Text := StringValue (Todo.Text td),
                         todoResourceModel.Priority := StringValue (Todo.Priority td),
                         todoResourceModel.Completed := BoolValue (Todo.Completed td),
                         todoResourceModel.TimeCreated := StringValue (time_String (Todo.TimeCreated td)),
                         todoResourceModel.TimeUpdated := StringValue (time_String (Todo.TimeUpdated td))\<rparr>;
                       set = State_Set state1
                   in ([Call_GetTodo id],
                       resp1\<lparr>ReadResponse.State := fst set,
                             ReadResponse.Diagnostics :=
                               Append (ReadResponse.Diagnostics resp1) (snd set)\<rparr>)))"

text \<open>
  \<^verbatim>\<open>todoResource.Update\<close>. The code sets all three pointers of the request body, to
  the values it reads from the plan.
\<close>

definition todoResource_Update ::
  "('u \<Rightarrow> string) \<Rightarrow> ('t \<Rightarrow> string) \<Rightarrow> ('u, 't) Client \<Rightarrow> UpdateRequest \<Rightarrow>
   UpdateResponse \<Rightarrow> lib_call list \<times> UpdateResponse" where
  "todoResource_Update uuid_String time_String client req resp =
     (let plan = Get_target (UpdateRequest.Plan req);
          resp1 = resp\<lparr>UpdateResponse.Diagnostics :=
                    Append (UpdateResponse.Diagnostics resp) (Get_diags (UpdateRequest.Plan req))\<rparr>
      in if HasError (UpdateResponse.Diagnostics resp1) then ([], resp1)
         else
           let text = ValueString (todoResourceModel.Text plan);
               priority = ValueString (todoResourceModel.Priority plan);
               completed = ValueBool (todoResourceModel.Completed plan);
               params = \<lparr>TodoUpdateParams.Text = Some text,
                         TodoUpdateParams.Priority = Some priority,
                         TodoUpdateParams.Completed = Some completed\<rparr>;
               id = ValueString (todoResourceModel.ID plan)
           in (case UpdateTodo client id params of
                 Inl err \<Rightarrow>
                   ([Call_UpdateTodo id params],
                    resp1\<lparr>UpdateResponse.Diagnostics :=
                      AddError (UpdateResponse.Diagnostics resp1) ''Error updating todo''
                        (''Could not update todo, unexpected error: '' @ err)\<rparr>)
               | Inr td \<Rightarrow>
                   let plan1 = plan\<lparr>
                         todoResourceModel.Text := StringValue (Todo.Text td),
                         todoResourceModel.Priority := StringValue (Todo.Priority td),
                         todoResourceModel.Completed := BoolValue (Todo.Completed td),
                         todoResourceModel.TimeCreated := StringValue (time_String (Todo.TimeCreated td)),
                         todoResourceModel.TimeUpdated := StringValue (time_String (Todo.TimeUpdated td))\<rparr>;
                       set = State_Set plan1
                   in ([Call_UpdateTodo id params],
                       resp1\<lparr>UpdateResponse.State := fst set,
                             UpdateResponse.Diagnostics :=
                               Append (UpdateResponse.Diagnostics resp1) (snd set)\<rparr>)))"

text \<open>\<^verbatim>\<open>todoResource.Delete\<close>; \<^verbatim>\<open>DeleteTodo\<close> returns only an error, \<open>None\<close> when nil.\<close>

definition todoResource_Delete ::
  "('u, 't) Client \<Rightarrow> DeleteRequest \<Rightarrow> DeleteResponse \<Rightarrow> lib_call list \<times> DeleteResponse" where
  "todoResource_Delete client req resp =
     (let state = Get_target (DeleteRequest.State req);
          resp1 = resp\<lparr>DeleteResponse.Diagnostics :=
                    Append (DeleteResponse.Diagnostics resp) (Get_diags (DeleteRequest.State req))\<rparr>
      in if HasError (DeleteResponse.Diagnostics resp1) then ([], resp1)
         else
           let id = ValueString (todoResourceModel.ID state)
           in (case DeleteTodo client id of
                 Some err \<Rightarrow>
                   ([Call_DeleteTodo id],
                    resp1\<lparr>DeleteResponse.Diagnostics :=
                      AddError (DeleteResponse.Diagnostics resp1) ''Error deleting todo''
                        (''Could not delete todo, unexpected error: '' @ err)\<rparr>)
               | None \<Rightarrow> ([Call_DeleteTodo id], resp1)))"

section \<open>The todos data source\<close>

record todosModel =
  ID :: tf_String
  Text :: tf_String
  Priority :: tf_String
  Completed :: tf_Bool
  TimeCreated :: tf_String
  TimeUpdated :: tf_String

text \<open>
  The Go struct that \<^verbatim>\<open>Read\<close> fills. \<^verbatim>\<open>Todos\<close> is a Go slice: \<open>None\<close> is the nil slice,
  which is what the zero value of the struct holds, and \<open>Some xs\<close> a slice that has been
  allocated. The builtin \<^verbatim>\<open>append\<close> allocates when it is given the nil slice.
\<close>

record todosDataSourceModel =
  ID :: tf_String
  Todos :: "todosModel list option"

fun go_append :: "'a list option \<Rightarrow> 'a \<Rightarrow> 'a list option" where
  "go_append None x = Some [x]"
| "go_append (Some xs) x = Some (xs @ [x])"

text \<open>
  The state that the framework stores for the data source: the attributes \<^verbatim>\<open>id\<close> and
  \<^verbatim>\<open>todos\<close>, the second a framework list, which is null, unknown or a list of items.
  \<^verbatim>\<open>resp.State.Set\<close> on the struct stores a nil slice as the null list and an allocated
  slice as the list of its elements, and returns no diagnostics.
\<close>

datatype 'a tf_List = ListNull | ListUnknown | ListValue "'a list"

record todosDataSourceState =
  ID :: tf_String
  Todos :: "todosModel tf_List"

definition datasource_State_Set ::
  "todosDataSourceModel \<Rightarrow> todosDataSourceState option \<times> Diagnostic list" where
  "datasource_State_Set v =
     (Some \<lparr>todosDataSourceState.ID = todosDataSourceModel.ID v,
            todosDataSourceState.Todos =
              (case todosDataSourceModel.Todos v of
                 None \<Rightarrow> ListNull
               | Some xs \<Rightarrow> ListValue xs)\<rparr>,
      [])"

record datasource_ReadResponse =
  State :: "todosDataSourceState option"
  Diagnostics :: "Diagnostic list"

text \<open>
  The loop of \<^verbatim>\<open>todosDataSource.Read\<close> over the listed items: each item is converted
  and appended to \<^verbatim>\<open>state.Todos\<close>, here the accumulator. With no item the accumulator
  is returned as it came.
\<close>

fun todos_loop ::
  "('u \<Rightarrow> string) \<Rightarrow> ('t \<Rightarrow> string) \<Rightarrow> ('u, 't) Todo list \<Rightarrow> todosModel list option \<Rightarrow>
   todosModel list option" where
  "todos_loop uuid_String time_String [] state_Todos = state_Todos"
| "todos_loop uuid_String time_String (todo # rest) state_Todos =
     (let todostate = \<lparr>
            todosModel.ID = StringValue (uuid_String (Todo.ID todo)),
            todosModel.Text = StringValue (Todo.Text todo),
            todosModel.Priority = StringValue (Todo.Priority todo),
            todosModel.Completed = BoolValue (Todo.Completed todo),
            todosModel.TimeCreated = StringValue (time_String (Todo.TimeCreated todo)),
            todosModel.TimeUpdated = StringValue (time_String (Todo.TimeUpdated todo))\<rparr>
      in todos_loop uuid_String time_String rest (go_append state_Todos todostate))"

text \<open>
  \<^verbatim>\<open>todosDataSource.Read\<close>. The request is not used by the code and is left out. The
  local \<^verbatim>\<open>state\<close> starts as the zero value of its struct: a null id and the nil slice.
\<close>

definition todosDataSource_Read ::
  "('u \<Rightarrow> string) \<Rightarrow> ('t \<Rightarrow> string) \<Rightarrow> ('u, 't) Client \<Rightarrow> datasource_ReadResponse \<Rightarrow>
   lib_call list \<times> datasource_ReadResponse" where
  "todosDataSource_Read uuid_String time_String client resp =
     (let state = \<lparr>todosDataSourceModel.ID = StringNull, todosDataSourceModel.Todos = None\<rparr>
      in (case ListTodos client of
            Inl err \<Rightarrow>
              ([Call_ListTodos],
               resp\<lparr>datasource_ReadResponse.Diagnostics :=
                 AddError (datasource_ReadResponse.Diagnostics resp) ''Unable to read todos'' err\<rparr>)
          | Inr todos \<Rightarrow>
              let state1 = state\<lparr>todosDataSourceModel.Todos :=
                             todos_loop uuid_String time_String todos
                               (todosDataSourceModel.Todos state)\<rparr>;
                  state2 = state1\<lparr>todosDataSourceModel.ID := StringValue ''todos_id_placeholder''\<rparr>;
                  set = datasource_State_Set state2
              in ([Call_ListTodos],
                  resp\<lparr>datasource_ReadResponse.State := fst set,
                       datasource_ReadResponse.Diagnostics :=
                         Append (datasource_ReadResponse.Diagnostics resp) (snd set)\<rparr>)))"

section \<open>Concrete collaborators for the instances below\<close>

text \<open>
  Instances of the theorems need a concrete environment: a \<^verbatim>\<open>NewClient\<close> that accepts
  every host, a client whose server stores what it is sent and answers with it, and a
  client whose every call fails. UUIDs and times are plain strings in them, rendered by
  \<open>id\<close>.
\<close>

definition NewClient_ok :: "string \<Rightarrow> go_error + string" where
  "NewClient_ok host = Inr host"

definition stored_todo :: "(string, string) Todo" where
  "stored_todo =
     \<lparr>Todo.ID = ''0b5d2c1e-0000-4000-8000-000000000001'', Todo.Text = ''water the plants'',
      Todo.Priority = ''high'', Todo.Completed = True,
      Todo.TimeCreated = ''2023-01-01 10:00:00 +0000 UTC'',
      Todo.TimeUpdated = ''2023-01-02 11:30:00 +0000 UTC''\<rparr>"

definition echo_CreateTodo :: "TodoCreateParams \<Rightarrow> go_error + (string, string) Todo" where
  "echo_CreateTodo params =
     Inr \<lparr>Todo.ID = ''0b5d2c1e-0000-4000-8000-000000000002'',
          Todo.Text = TodoCreateParams.Text params,
          Todo.Priority = TodoCreateParams.Priority params, Todo.Completed = False,
          Todo.TimeCreated = ''2023-02-01 09:00:00 +0000 UTC'',
          Todo.TimeUpdated = ''2023-02-01 09:00:00 +0000 UTC''\<rparr>"

definition echo_GetTodo :: "string \<Rightarrow> go_error + (string, string) Todo" where
  "echo_GetTodo i = Inr (stored_todo\<lparr>Todo.ID := i\<rparr>)"

definition echo_UpdateTodo ::
  "string \<Rightarrow> TodoUpdateParams \<Rightarrow> go_error + (string, string) Todo" where
  "echo_UpdateTodo i params =
     Inr \<lparr>Todo.ID = i,
          Todo.Text = (case TodoUpdateParams.Text params of
                         None \<Rightarrow> Todo.Text stored_todo | Some v \<Rightarrow> v),
          Todo.Priority = (case TodoUpdateParams.Priority params of
                             None \<Rightarrow> Todo.Priority stored_todo | Some v \<Rightarrow> v),
          Todo.Completed = (case TodoUpdateParams.Completed params of
                              None \<Rightarrow> Todo.Completed stored_todo | Some v \<Rightarrow> v),
          Todo.TimeCreated = Todo.TimeCreated stored_todo,
          Todo.TimeUpdated = ''2023-03-01 12:00:00 +0000 UTC''\<rparr>"

definition echo_DeleteTodo :: "string \<Rightarrow> go_error option" where
  "echo_DeleteTodo i = None"

definition echo_client :: "(string, string) Client" where
  "echo_client =
     \<lparr>ListTodos = Inr [stored_todo, stored_todo\<lparr>Todo.Text := ''buy milk'', Todo.Completed := False\<rparr>],
      CreateTodo = echo_CreateTodo, GetTodo = echo_GetTodo,
      UpdateTodo = echo_UpdateTodo, DeleteTodo = echo_DeleteTodo\<rparr>"

text \<open>
  A client whose server normalises what it is sent: it answers a create request with
  the text in capitals and with the priority "medium".
\<close>

definition rewriting_CreateTodo :: "TodoCreateParams \<Rightarrow> go_error + (string, string) Todo" where
  "rewriting_CreateTodo params =
     Inr \<lparr>Todo.ID = ''0b5d2c1e-0000-4000-8000-000000000003'',
          Todo.Text = ''BUY MILK'', Todo.Priority = ''medium'', Todo.Completed = False,
          Todo.TimeCreated = ''2023-02-01 09:00:00 +0000 UTC'',
          Todo.TimeUpdated = ''2023-02-01 09:00:00 +0000 UTC''\<rparr>"

definition rewriting_client :: "(string, string) Client" where
  "rewriting_client = echo_client\<lparr>CreateTodo := rewriting_CreateTodo\<rparr>"

definition failing_CreateTodo :: "TodoCreateParams \<Rightarrow> go_error + (string, string) Todo" where
  "failing_CreateTodo params = Inl ''connection refused''"

definition failing_GetTodo :: "string \<Rightarrow> go_error + (string, string) Todo" where
  "failing_GetTodo i = Inl ''connection refused''"

definition failing_UpdateTodo ::
  "string \<Rightarrow> TodoUpdateParams \<Rightarrow> go_error + (string, string) Todo" where
  "failing_UpdateTodo i params = Inl ''connection refused''"

definition failing_DeleteTodo :: "string \<Rightarrow> go_error option" where
  "failing_DeleteTodo i = Some ''connection refused''"

definition failing_client :: "(string, string) Client" where
  "failing_client =
     \<lparr>ListTodos = Inl ''connection refused'',
      CreateTodo = failing_CreateTodo, GetTodo = failing_GetTodo,
      UpdateTodo = failing_UpdateTodo, DeleteTodo = failing_DeleteTodo\<rparr>"

definition empty_client :: "(string, string) Client" where
  "empty_client = echo_client\<lparr>ListTodos := Inr []\<rparr>"

text \<open>
  A plan for a new item whose configuration sets no priority, the state of an existing
  item, and a plan that changes the text of that item while the configuration sets no
  priority.
\<close>

definition new_plan :: todoResourceModel where
  "new_plan =
     \<lparr>todoResourceModel.ID = StringUnknown, todoResourceModel.Text = StringValue ''buy milk'',
      todoResourceModel.Priority = StringNull, todoResourceModel.Completed = BoolUnknown,
      todoResourceModel.TimeCreated = StringUnknown, todoResourceModel.TimeUpdated = StringUnknown\<rparr>"

definition prior_state :: todoResourceModel where
  "prior_state =
     \<lparr>todoResourceModel.ID = StringValue ''0b5d2c1e-0000-4000-8000-000000000001'',
      todoResourceModel.Text = StringValue ''water the plants'',
      todoResourceModel.Priority = StringValue ''high'',
      todoResourceModel.Completed = BoolValue True,
      todoResourceModel.TimeCreated = StringValue ''2023-01-01 10:00:00 +0000 UTC'',
      todoResourceModel.TimeUpdated = StringValue ''2023-01-02 11:30:00 +0000 UTC''\<rparr>"

definition update_plan :: todoResourceModel where
  "update_plan =
     \<lparr>todoResourceModel.ID = StringValue ''0b5d2c1e-0000-4000-8000-000000000001'',
      todoResourceModel.Text = StringValue ''water the garden'',
      todoResourceModel.Priority = StringNull,
      todoResourceModel.Completed = BoolUnknown,
      todoResourceModel.TimeCreated = StringUnknown,
      todoResourceModel.TimeUpdated = StringUnknown\<rparr>"

text \<open>The same plan for an update with the priority set in the configuration.\<close>

definition update_plan_medium :: todoResourceModel where
  "update_plan_medium = update_plan\<lparr>todoResourceModel.Priority := StringValue ''medium''\<rparr>"

section \<open>Facts about diagnostics\<close>

lemma Contains_iff: "Contains ds x \<longleftrightarrow> x \<in> set ds"
  by (induction ds) auto

lemma HasError_iff: "HasError ds \<longleftrightarrow> (\<exists>d \<in> set ds. Diagnostic_Severity d = SeverityError)"
  by (induction ds) auto

lemma set_Append: "set (Append ds new) = set ds \<union> set new"
  by (induction new arbitrary: ds) (auto simp: Contains_iff)

lemma HasError_Append: "HasError (Append ds new) \<longleftrightarrow> HasError ds \<or> HasError new"
  by (auto simp: HasError_iff set_Append)

lemma HasError_append: "HasError (xs @ ys) \<longleftrightarrow> HasError xs \<or> HasError ys"
  by (auto simp: HasError_iff)

lemma Append_fresh_error:
  assumes "\<not> HasError ds" and "Diagnostic_Severity d = SeverityError"
  shows "Append ds [d] = ds @ [d]"
proof -
  from assms have "d \<notin> set ds" by (auto simp: HasError_iff)
  then show ?thesis by (simp add: Contains_iff)
qed

lemma AddError_fresh:
  "\<not> HasError ds \<Longrightarrow> AddError ds s d = ds @ [ErrorDiagnostic s d]"
  unfolding AddError_def by (rule Append_fresh_error) simp_all

lemma AddAttributeError_fresh:
  "\<not> HasError ds \<Longrightarrow> AddAttributeError ds p s d = ds @ [AttributeErrorDiagnostic p s d]"
  unfolding AddAttributeError_def by (rule Append_fresh_error) simp_all

lemma HasError_AddAttributeError: "HasError (AddAttributeError ds p s d)"
  unfolding AddAttributeError_def HasError_Append by simp

section \<open>Facts about the provider configuration\<close>

lemma Configure_prior_error:
  assumes "HasError (Append (ConfigureResponse.Diagnostics resp) (Get_diags (Config req)))"
  shows "todoProvider_Configure env NewClient req resp =
           ([], resp\<lparr>ConfigureResponse.Diagnostics :=
                   Append (ConfigureResponse.Diagnostics resp) (Get_diags (Config req))\<rparr>)"
  using assms by (simp add: todoProvider_Configure_def Let_def)

lemma Configure_unknown:
  assumes "\<not> HasError (Append (ConfigureResponse.Diagnostics resp) (Get_diags (Config req)))"
    and "String_IsUnknown (Host (Get_target (Config req)))"
  shows "todoProvider_Configure env NewClient req resp =
           ([], resp\<lparr>ConfigureResponse.Diagnostics :=
                   Append (ConfigureResponse.Diagnostics resp) (Get_diags (Config req)) @
                   [AttributeErrorDiagnostic [''host''] ''Unknown todo API host''
                      unknown_host_detail]\<rparr>)"
  using assms
  by (simp add: todoProvider_Configure_def Let_def HasError_append AddAttributeError_fresh)

lemma Configure_missing:
  assumes "\<not> HasError (Append (ConfigureResponse.Diagnostics resp) (Get_diags (Config req)))"
    and "\<not> String_IsUnknown (Host (Get_target (Config req)))"
    and "(if \<not> String_IsNull (Host (Get_target (Config req)))
          then ValueString (Host (Get_target (Config req)))
          else Getenv env ''TODO_HOST'') = []"
  shows "todoProvider_Configure env NewClient req resp =
           ([], resp\<lparr>ConfigureResponse.Diagnostics :=
                   Append (ConfigureResponse.Diagnostics resp) (Get_diags (Config req)) @
                   [AttributeErrorDiagnostic [''host''] ''Missing todo API host''
                      missing_host_detail]\<rparr>)"
  using assms
  by (cases "Host (Get_target (Config req))")
     (simp_all add: todoProvider_Configure_def Let_def HasError_append AddAttributeError_fresh)

lemma Configure_calls_NewClient:
  assumes "\<not> HasError (Append (ConfigureResponse.Diagnostics resp) (Get_diags (Config req)))"
    and "\<not> String_IsUnknown (Host (Get_target (Config req)))"
    and "host = (if \<not> String_IsNull (Host (Get_target (Config req)))
          then ValueString (Host (Get_target (Config req)))
          else Getenv env ''TODO_HOST'')"
    and "host \<noteq> []"
  shows "fst (todoProvider_Configure env NewClient req resp) = [Call_NewClient host]"
  using assms
  by (cases "Host (Get_target (Config req))")
     (simp_all add: todoProvider_Configure_def Let_def split: sum.splits)

lemma Configure_calls_cases:
  "fst (todoProvider_Configure env NewClient req resp) = [] \<or>
   (fst (todoProvider_Configure env NewClient req resp) =
      [Call_NewClient (if \<not> String_IsNull (Host (Get_target (Config req)))
          then ValueString (Host (Get_target (Config req)))
          else Getenv env ''TODO_HOST'')] \<and>
    (if \<not> String_IsNull (Host (Get_target (Config req)))
          then ValueString (Host (Get_target (Config req)))
          else Getenv env ''TODO_HOST'') \<noteq> [] \<and>
    \<not> String_IsUnknown (Host (Get_target (Config req))))"
  by (cases "Host (Get_target (Config req))")
     (simp_all add: todoProvider_Configure_def Let_def HasError_AddAttributeError split: sum.splits)

section \<open>Provider configuration: the claims\<close>

text \<open>
  Claim C2. When neither the configured host nor the environment variable
  \<^verbatim>\<open>TODO_HOST\<close> yields a non-empty string, or when the configured host is unknown,
  \<^verbatim>\<open>Configure\<close> makes no call to \<^verbatim>\<open>NewClient\<close>, leaves the client fields of the
  response as they were and returns with an error among the diagnostics; when no error
  was present before, the diagnostic it adds is the unknown-host error for an unknown
  host and the missing-host error otherwise. For every configuration whatever, no call
  \<^verbatim>\<open>NewClient("")\<close> is made.
\<close>

theorem Configure_missing_or_unknown_host:
  "((ValueString (Host (Get_target (Config req))) = [] \<and> Getenv env ''TODO_HOST'' = [])
      \<or> String_IsUnknown (Host (Get_target (Config req)))
    \<longrightarrow>
      fst (todoProvider_Configure env NewClient req resp) = [] \<and>
      HasError (ConfigureResponse.Diagnostics (snd (todoProvider_Configure env NewClient req resp))) \<and>
      DataSourceData (snd (todoProvider_Configure env NewClient req resp)) = DataSourceData resp \<and>
      ResourceData (snd (todoProvider_Configure env NewClient req resp)) = ResourceData resp \<and>
      (\<not> HasError (Append (ConfigureResponse.Diagnostics resp) (Get_diags (Config req))) \<longrightarrow>
         ConfigureResponse.Diagnostics (snd (todoProvider_Configure env NewClient req resp)) =
           Append (ConfigureResponse.Diagnostics resp) (Get_diags (Config req)) @
           [if String_IsUnknown (Host (Get_target (Config req)))
            then AttributeErrorDiagnostic [''host''] ''Unknown todo API host'' unknown_host_detail
            else AttributeErrorDiagnostic [''host''] ''Missing todo API host'' missing_host_detail]))
   \<and> Call_NewClient [] \<notin> set (fst (todoProvider_Configure env NewClient req resp))"
proof -
  let ?ds = "Append (ConfigureResponse.Diagnostics resp) (Get_diags (Config req))"
  let ?h = "Host (Get_target (Config req))"
  have empty: "Call_NewClient [] \<notin> set (fst (todoProvider_Configure env NewClient req resp))"
    using Configure_calls_cases [of env NewClient req resp] by auto
  show ?thesis
  proof (cases "HasError ?ds")
    case True
    then show ?thesis
      using empty by (simp add: Configure_prior_error)
  next
    case noerr: False
    show ?thesis
    proof (cases "String_IsUnknown ?h")
      case True
      then show ?thesis
        using noerr empty by (simp add: Configure_unknown HasError_append)
    next
      case False
      have "todoProvider_Configure env NewClient req resp =
              ([], resp\<lparr>ConfigureResponse.Diagnostics := ?ds @
                    [AttributeErrorDiagnostic [''host''] ''Missing todo API host''
                       missing_host_detail]\<rparr>)"
        if "ValueString ?h = [] \<and> Getenv env ''TODO_HOST'' = []"
        using that False noerr by (intro Configure_missing) simp_all
      with False noerr show ?thesis
        using empty by (auto simp: HasError_append)
    qed
  qed
qed

theorem Configure_missing_or_unknown_host_witness:
  "fst (todoProvider_Configure Map.empty NewClient_ok
          \<lparr>Config = Decoded [] \<lparr>Host = StringNull\<rparr>\<rparr>
          \<lparr>ConfigureResponse.Diagnostics = [], DataSourceData = None, ResourceData = None\<rparr>) = [] \<and>
   ConfigureResponse.Diagnostics (snd (todoProvider_Configure Map.empty NewClient_ok
          \<lparr>Config = Decoded [] \<lparr>Host = StringNull\<rparr>\<rparr>
          \<lparr>ConfigureResponse.Diagnostics = [], DataSourceData = None, ResourceData = None\<rparr>)) =
     [AttributeErrorDiagnostic [''host''] ''Missing todo API host'' missing_host_detail] \<and>
   fst (todoProvider_Configure [''TODO_HOST'' \<mapsto> ''http://localhost:8080''] NewClient_ok
          \<lparr>Config = Decoded [] \<lparr>Host = StringUnknown\<rparr>\<rparr>
          \<lparr>ConfigureResponse.Diagnostics = [], DataSourceData = None, ResourceData = None\<rparr>) = [] \<and>
   ConfigureResponse.Diagnostics (snd (todoProvider_Configure [''TODO_HOST'' \<mapsto> ''http://localhost:8080''] NewClient_ok
          \<lparr>Config = Decoded [] \<lparr>Host = StringUnknown\<rparr>\<rparr>
          \<lparr>ConfigureResponse.Diagnostics = [], DataSourceData = None, ResourceData = None\<rparr>)) =
     [AttributeErrorDiagnostic [''host''] ''Unknown todo API host'' unknown_host_detail]"
  using Configure_missing_or_unknown_host
          [where env = Map.empty and NewClient = NewClient_ok
             and req = "\<lparr>Config = Decoded [] \<lparr>Host = StringNull\<rparr>\<rparr>"
             and resp = "\<lparr>ConfigureResponse.Diagnostics = [], DataSourceData = None, ResourceData = None\<rparr>"]
        Configure_missing_or_unknown_host
          [where env = "[''TODO_HOST'' \<mapsto> ''http://localhost:8080'']" and NewClient = NewClient_ok
             and req = "\<lparr>Config = Decoded [] \<lparr>Host = StringUnknown\<rparr>\<rparr>"
             and resp = "\<lparr>ConfigureResponse.Diagnostics = [], DataSourceData = None, ResourceData = None\<rparr>"]
  by (simp add: Getenv_def)

text \<open>
  Claim C8. The host passed to \<^verbatim>\<open>NewClient\<close> is the configured value when the
  configured host is set, whatever the environment holds, and the value of
  \<^verbatim>\<open>TODO_HOST\<close> when the configured host is null: without earlier errors a non-empty
  configured host \<open>v\<close> gives exactly the call \<^verbatim>\<open>NewClient(v)\<close>, a null configured host
  with a non-empty variable gives exactly the call with the variable's value, and every
  call to \<^verbatim>\<open>NewClient\<close> that is ever made has the host chosen in this way.
\<close>

theorem Configure_host_precedence:
  "(\<not> HasError (Append (ConfigureResponse.Diagnostics resp) (Get_diags (Config req))) \<longrightarrow>
      (\<forall>v. Host (Get_target (Config req)) = StringValue v \<and> v \<noteq> [] \<longrightarrow>
           fst (todoProvider_Configure env NewClient req resp) = [Call_NewClient v]) \<and>
      (Host (Get_target (Config req)) = StringNull \<and> Getenv env ''TODO_HOST'' \<noteq> [] \<longrightarrow>
           fst (todoProvider_Configure env NewClient req resp) = [Call_NewClient (Getenv env ''TODO_HOST'')]))
   \<and> (\<forall>h. Call_NewClient h \<in> set (fst (todoProvider_Configure env NewClient req resp)) \<longrightarrow>
          h = (if String_IsNull (Host (Get_target (Config req)))
               then Getenv env ''TODO_HOST''
               else ValueString (Host (Get_target (Config req)))))"
proof -
  have "fst (todoProvider_Configure env NewClient req resp) = [Call_NewClient v]"
    if "\<not> HasError (Append (ConfigureResponse.Diagnostics resp) (Get_diags (Config req)))"
      and "Host (Get_target (Config req)) = StringValue v" and "v \<noteq> []" for v
    using that by (intro Configure_calls_NewClient) simp_all
  moreover have "fst (todoProvider_Configure env NewClient req resp) = [Call_NewClient (Getenv env ''TODO_HOST'')]"
    if "\<not> HasError (Append (ConfigureResponse.Diagnostics resp) (Get_diags (Config req)))"
      and "Host (Get_target (Config req)) = StringNull" and "Getenv env ''TODO_HOST'' \<noteq> []"
    using that by (intro Configure_calls_NewClient) simp_all
  moreover have "h = (if String_IsNull (Host (Get_target (Config req)))
               then Getenv env ''TODO_HOST''
               else ValueString (Host (Get_target (Config req))))"
    if "Call_NewClient h \<in> set (fst (todoProvider_Configure env NewClient req resp))" for h
    using that Configure_calls_cases [of env NewClient req resp] by (auto split: if_splits)
  ultimately show ?thesis by blast
qed

theorem Configure_host_precedence_witness:
  "fst (todoProvider_Configure [''TODO_HOST'' \<mapsto> ''http://from-env:8080''] NewClient_ok
          \<lparr>Config = Decoded [] \<lparr>Host = StringValue ''http://from-config:8080''\<rparr>\<rparr>
          \<lparr>ConfigureResponse.Diagnostics = [], DataSourceData = None, ResourceData = None\<rparr>)
     = [Call_NewClient ''http://from-config:8080''] \<and>
   fst (todoProvider_Configure [''TODO_HOST'' \<mapsto> ''http://from-env:8080''] NewClient_ok
          \<lparr>Config = Decoded [] \<lparr>Host = StringNull\<rparr>\<rparr>
          \<lparr>ConfigureResponse.Diagnostics = [], DataSourceData = None, ResourceData = None\<rparr>)
     = [Call_NewClient ''http://from-env:8080'']"
  using Configure_host_precedence
          [where env = "[''TODO_HOST'' \<mapsto> ''http://from-env:8080'']" and NewClient = NewClient_ok
             and req = "\<lparr>Config = Decoded [] \<lparr>Host = StringValue ''http://from-config:8080''\<rparr>\<rparr>"
             and resp = "\<lparr>ConfigureResponse.Diagnostics = [], DataSourceData = None, ResourceData = None\<rparr>"]
        Configure_host_precedence
          [where env = "[''TODO_HOST'' \<mapsto> ''http://from-env:8080'']" and NewClient = NewClient_ok
             and req = "\<lparr>Config = Decoded [] \<lparr>Host = StringNull\<rparr>\<rparr>"
             and resp = "\<lparr>ConfigureResponse.Diagnostics = [], DataSourceData = None, ResourceData = None\<rparr>"]
  by (simp add: Getenv_def)

text \<open>
  Claim C9. A configured host that is set to the empty string makes \<^verbatim>\<open>Configure\<close> fail
  with the missing-host error and without a call to \<^verbatim>\<open>NewClient\<close>, for every
  environment, also one in which \<^verbatim>\<open>TODO_HOST\<close> is not empty: the empty configured
  value hides the variable.
\<close>

theorem Configure_empty_config_masks_env:
  assumes "Host (Get_target (Config req)) = StringValue []"
    and "\<not> HasError (Append (ConfigureResponse.Diagnostics resp) (Get_diags (Config req)))"
  shows "todoProvider_Configure env NewClient req resp =
           ([], resp\<lparr>ConfigureResponse.Diagnostics :=
                   Append (ConfigureResponse.Diagnostics resp) (Get_diags (Config req)) @
                   [AttributeErrorDiagnostic [''host''] ''Missing todo API host''
                      missing_host_detail]\<rparr>)"
  using assms by (intro Configure_missing) simp_all

theorem Configure_empty_config_masks_env_witness:
  "Getenv [''TODO_HOST'' \<mapsto> ''http://from-env:8080''] ''TODO_HOST'' = ''http://from-env:8080'' \<and>
   todoProvider_Configure [''TODO_HOST'' \<mapsto> ''http://from-env:8080''] NewClient_ok
      \<lparr>Config = Decoded [] \<lparr>Host = StringValue []\<rparr>\<rparr>
      \<lparr>ConfigureResponse.Diagnostics = [], DataSourceData = None, ResourceData = None\<rparr>
   = ([], \<lparr>ConfigureResponse.Diagnostics =
              [AttributeErrorDiagnostic [''host''] ''Missing todo API host'' missing_host_detail],
           DataSourceData = None, ResourceData = None\<rparr>)"
  using Configure_empty_config_masks_env
          [where env = "[''TODO_HOST'' \<mapsto> ''http://from-env:8080'']" and NewClient = NewClient_ok
             and req = "\<lparr>Config = Decoded [] \<lparr>Host = StringValue []\<rparr>\<rparr>"
             and resp = "\<lparr>ConfigureResponse.Diagnostics = [], DataSourceData = None, ResourceData = None\<rparr>"]
  by (simp add: Getenv_def)


section \<open>Facts about the todo resource\<close>

lemma Create_prior_error:
  assumes "HasError (Append (CreateResponse.Diagnostics resp) (Get_diags (CreateRequest.Plan req)))"
  shows "todoResource_Create us ts client req resp =
           ([], resp\<lparr>CreateResponse.Diagnostics :=
                   Append (CreateResponse.Diagnostics resp) (Get_diags (CreateRequest.Plan req))\<rparr>)"
  using assms by (simp add: todoResource_Create_def Let_def)

lemma Create_api_error:
  assumes "\<not> HasError (Append (CreateResponse.Diagnostics resp) (Get_diags (CreateRequest.Plan req)))"
    and "params = \<lparr>TodoCreateParams.Text = ValueString (todoResourceModel.Text (Get_target (CreateRequest.Plan req))),
                    TodoCreateParams.Priority =
                      (if ValueString (todoResourceModel.Priority (Get_target (CreateRequest.Plan req))) = []
                       then PriorityLow
                       else ValueString (todoResourceModel.Priority (Get_target (CreateRequest.Plan req))))\<rparr>"
    and "CreateTodo client params = Inl err"
  shows "todoResource_Create us ts client req resp =
           ([Call_CreateTodo params],
            resp\<lparr>CreateResponse.Diagnostics :=
                   Append (CreateResponse.Diagnostics resp) (Get_diags (CreateRequest.Plan req)) @
                   [ErrorDiagnostic ''Error creating todo''
                      (''Could not create todo, unexpected error: '' @ err)]\<rparr>)"
  using assms by (simp add: todoResource_Create_def Let_def AddError_fresh)

lemma Create_success:
  assumes "\<not> HasError (Append (CreateResponse.Diagnostics resp) (Get_diags (CreateRequest.Plan req)))"
    and "params = \<lparr>TodoCreateParams.Text = ValueString (todoResourceModel.Text (Get_target (CreateRequest.Plan req))),
                    TodoCreateParams.Priority =
                      (if ValueString (todoResourceModel.Priority (Get_target (CreateRequest.Plan req))) = []
                       then PriorityLow
                       else ValueString (todoResourceModel.Priority (Get_target (CreateRequest.Plan req))))\<rparr>"
    and "CreateTodo client params = Inr td"
  shows "todoResource_Create us ts client req resp =
           ([Call_CreateTodo params],
            resp\<lparr>CreateResponse.State := Some
                    \<lparr>todoResourceModel.ID = StringValue (us (Todo.ID td)),
                     todoResourceModel.Text = StringValue (Todo.Text td),
                     todoResourceModel.Priority = StringValue (Todo.Priority td),
                     todoResourceModel.Completed = BoolValue (Todo.Completed td),
                     todoResourceModel.TimeCreated = StringValue (ts (Todo.TimeCreated td)),
                     todoResourceModel.TimeUpdated = StringValue (ts (Todo.TimeUpdated td))\<rparr>,
                  CreateResponse.Diagnostics :=
                    Append (CreateResponse.Diagnostics resp) (Get_diags (CreateRequest.Plan req))\<rparr>)"
  using assms by (simp add: todoResource_Create_def Let_def State_Set_def)

lemma Read_prior_error:
  assumes "HasError (Append (ReadResponse.Diagnostics resp) (Get_diags (ReadRequest.State req)))"
  shows "todoResource_Read us ts client req resp =
           ([], resp\<lparr>ReadResponse.Diagnostics :=
                   Append (ReadResponse.Diagnostics resp) (Get_diags (ReadRequest.State req))\<rparr>)"
  using assms by (simp add: todoResource_Read_def Let_def)

lemma Read_api_error:
  assumes "\<not> HasError (Append (ReadResponse.Diagnostics resp) (Get_diags (ReadRequest.State req)))"
    and "i = ValueString (todoResourceModel.ID (Get_target (ReadRequest.State req)))"
    and "GetTodo client i = Inl err"
  shows "todoResource_Read us ts client req resp =
           ([Call_GetTodo i],
            resp\<lparr>ReadResponse.Diagnostics :=
                   Append (ReadResponse.Diagnostics resp) (Get_diags (ReadRequest.State req)) @
                   [ErrorDiagnostic ''Error reading todo''
                      (''Could not read todo ID '' @ i @ '': '' @ err)]\<rparr>)"
  using assms by (simp add: todoResource_Read_def Let_def AddError_fresh)

lemma Read_success:
  assumes "\<not> HasError (Append (ReadResponse.Diagnostics resp) (Get_diags (ReadRequest.State req)))"
    and "i = ValueString (todoResourceModel.ID (Get_target (ReadRequest.State req)))"
    and "GetTodo client i = Inr td"
  shows "todoResource_Read us ts client req resp =
           ([Call_GetTodo i],
            resp\<lparr>ReadResponse.State := Some
                    \<lparr>todoResourceModel.ID = todoResourceModel.ID (Get_target (ReadRequest.State req)),
                     todoResourceModel.Text = StringValue (Todo.Text td),
                     todoResourceModel.Priority = StringValue (Todo.Priority td),
                     todoResourceModel.Completed = BoolValue (Todo.Completed td),
                     todoResourceModel.TimeCreated = StringValue (ts (Todo.TimeCreated td)),
                     todoResourceModel.TimeUpdated = StringValue (ts (Todo.TimeUpdated td))\<rparr>,
                  ReadResponse.Diagnostics :=
                    Append (ReadResponse.Diagnostics resp) (Get_diags (ReadRequest.State req))\<rparr>)"
  using assms by (simp add: todoResource_Read_def Let_def State_Set_def)

lemma Update_prior_error:
  assumes "HasError (Append (UpdateResponse.Diagnostics resp) (Get_diags (UpdateRequest.Plan req)))"
  shows "todoResource_Update us ts client req resp =
           ([], resp\<lparr>UpdateResponse.Diagnostics :=
                   Append (UpdateResponse.Diagnostics resp) (Get_diags (UpdateRequest.Plan req))\<rparr>)"
  using assms by (simp add: todoResource_Update_def Let_def)

lemma Update_api_error:
  assumes "\<not> HasError (Append (UpdateResponse.Diagnostics resp) (Get_diags (UpdateRequest.Plan req)))"
    and "i = ValueString (todoResourceModel.ID (Get_target (UpdateRequest.Plan req)))"
    and "params = \<lparr>TodoUpdateParams.Text = Some (ValueString (todoResourceModel.Text (Get_target (UpdateRequest.Plan req)))),
                    TodoUpdateParams.Priority = Some (ValueString (todoResourceModel.Priority (Get_target (UpdateRequest.Plan req)))),
                    TodoUpdateParams.Completed = Some (ValueBool (todoResourceModel.Completed (Get_target (UpdateRequest.Plan req))))\<rparr>"
    and "UpdateTodo client i params = Inl err"
  shows "todoResource_Update us ts client req resp =
           ([Call_UpdateTodo i params],
            resp\<lparr>UpdateResponse.Diagnostics :=
                   Append (UpdateResponse.Diagnostics resp) (Get_diags (UpdateRequest.Plan req)) @
                   [ErrorDiagnostic ''Error updating todo''
                      (''Could not update todo, unexpected error: '' @ err)]\<rparr>)"
  using assms by (simp add: todoResource_Update_def Let_def AddError_fresh)

lemma Update_success:
  assumes "\<not> HasError (Append (UpdateResponse.Diagnostics resp) (Get_diags (UpdateRequest.Plan req)))"
    and "i = ValueString (todoResourceModel.ID (Get_target (UpdateRequest.Plan req)))"
    and "params = \<lparr>TodoUpdateParams.Text = Some (ValueString (todoResourceModel.Text (Get_target (UpdateRequest.Plan req)))),
                    TodoUpdateParams.Priority = Some (ValueString (todoResourceModel.Priority (Get_target (UpdateRequest.Plan req)))),
                    TodoUpdateParams.Completed = Some (ValueBool (todoResourceModel.Completed (Get_target (UpdateRequest.Plan req))))\<rparr>"
    and "UpdateTodo client i params = Inr td"
  shows "todoResource_Update us ts client req resp =
           ([Call_UpdateTodo i params],
            resp\<lparr>UpdateResponse.State := Some
                    \<lparr>todoResourceModel.ID = todoResourceModel.ID (Get_target (UpdateRequest.Plan req)),
                     todoResourceModel.Text = StringValue (Todo.Text td),
                     todoResourceModel.Priority = StringValue (Todo.Priority td),
                     todoResourceModel.Completed = BoolValue (Todo.Completed td),
                     todoResourceModel.TimeCreated = StringValue (ts (Todo.TimeCreated td)),
                     todoResourceModel.TimeUpdated = StringValue (ts (Todo.TimeUpdated td))\<rparr>,
                  UpdateResponse.Diagnostics :=
                    Append (UpdateResponse.Diagnostics resp) (Get_diags (UpdateRequest.Plan req))\<rparr>)"
  using assms by (simp add: todoResource_Update_def Let_def State_Set_def)

lemma todos_loop_map:
  "todos_loop us ts todos acc =
     (if todos = [] then acc
      else Some ((case acc of None \<Rightarrow> [] | Some xs \<Rightarrow> xs) @
             map (\<lambda>todo. \<lparr>todosModel.ID = StringValue (us (Todo.ID todo)),
                         todosModel.Text = StringValue (Todo.Text todo),
                         todosModel.Priority = StringValue (Todo.Priority todo),
                         todosModel.Completed = BoolValue (Todo.Completed todo),
                         todosModel.TimeCreated = StringValue (ts (Todo.TimeCreated todo)),
                         todosModel.TimeUpdated = StringValue (ts (Todo.TimeUpdated todo))\<rparr>) todos))"
proof (induction todos arbitrary: acc)
  case Nil
  then show ?case by simp
next
  case (Cons todo rest)
  show ?case
    by (cases acc) (simp_all add: Cons.IH Let_def)
qed

lemma Create_calls:
  "fst (todoResource_Create us ts client \<lparr>CreateRequest.Plan = Decoded diags plan\<rparr> resp) =
     (if HasError (Append (CreateResponse.Diagnostics resp) diags) then []
      else [Call_CreateTodo
              \<lparr>TodoCreateParams.Text = ValueString (todoResourceModel.Text plan),
               TodoCreateParams.Priority =
                 (if ValueString (todoResourceModel.Priority plan) = [] then PriorityLow
                  else ValueString (todoResourceModel.Priority plan))\<rparr>])"
  by (simp add: todoResource_Create_def Let_def split: sum.splits)

lemma CreateRequest_cases:
  obtains diags plan where "req = \<lparr>CreateRequest.Plan = Decoded diags plan\<rparr>"
  by (cases req, cases "CreateRequest.Plan req") auto

lemma Read_calls:
  "fst (todoResource_Read us ts client \<lparr>ReadRequest.State = Decoded diags state\<rparr> resp) =
     (if HasError (Append (ReadResponse.Diagnostics resp) diags) then []
      else [Call_GetTodo (ValueString (todoResourceModel.ID state))])"
  by (simp add: todoResource_Read_def Let_def split: sum.splits)

lemma Update_calls:
  "fst (todoResource_Update us ts client
          \<lparr>UpdateRequest.Plan = Decoded diags plan, UpdateRequest.State = prior\<rparr> resp) =
     (if HasError (Append (UpdateResponse.Diagnostics resp) diags) then []
      else [Call_UpdateTodo (ValueString (todoResourceModel.ID plan))
              \<lparr>TodoUpdateParams.Text = Some (ValueString (todoResourceModel.Text plan)),
               TodoUpdateParams.Priority = Some (ValueString (todoResourceModel.Priority plan)),
               TodoUpdateParams.Completed = Some (ValueBool (todoResourceModel.Completed plan))\<rparr>])"
  by (simp add: todoResource_Update_def Let_def split: sum.splits)

lemma ReadRequest_cases:
  obtains diags state where "req = \<lparr>ReadRequest.State = Decoded diags state\<rparr>"
  by (cases req, cases "ReadRequest.State req") auto

lemma UpdateRequest_cases:
  obtains diags plan prior where
    "req = \<lparr>UpdateRequest.Plan = Decoded diags plan, UpdateRequest.State = prior\<rparr>"
  by (cases req, cases "UpdateRequest.Plan req") auto

lemma Create_fails:
  assumes "fst (todoResource_Create us ts client req resp) = [Call_CreateTodo params]"
    and "CreateTodo client params = Inl err"
  shows "snd (todoResource_Create us ts client req resp) =
           resp\<lparr>CreateResponse.Diagnostics :=
             Append (CreateResponse.Diagnostics resp) (Get_diags (CreateRequest.Plan req)) @
             [ErrorDiagnostic ''Error creating todo''
                (''Could not create todo, unexpected error: '' @ err)]\<rparr>"
proof -
  obtain diags plan where req: "req = \<lparr>CreateRequest.Plan = Decoded diags plan\<rparr>"
    by (rule CreateRequest_cases)
  from assms(1) have noerr: "\<not> HasError (Append (CreateResponse.Diagnostics resp) diags)"
    and params: "params =
      \<lparr>TodoCreateParams.Text = ValueString (todoResourceModel.Text plan),
       TodoCreateParams.Priority =
         (if ValueString (todoResourceModel.Priority plan) = [] then PriorityLow
          else ValueString (todoResourceModel.Priority plan))\<rparr>"
    unfolding req Create_calls by (simp_all split: if_splits)
  have "todoResource_Create us ts client req resp =
           ([Call_CreateTodo params],
            resp\<lparr>CreateResponse.Diagnostics :=
                   Append (CreateResponse.Diagnostics resp) (Get_diags (CreateRequest.Plan req)) @
                   [ErrorDiagnostic ''Error creating todo''
                      (''Could not create todo, unexpected error: '' @ err)]\<rparr>)"
    using noerr params assms(2) unfolding req by (intro Create_api_error) simp_all
  then show ?thesis by simp
qed

lemma Read_fails:
  assumes "fst (todoResource_Read us ts client req resp) = [Call_GetTodo i]"
    and "GetTodo client i = Inl err"
  shows "snd (todoResource_Read us ts client req resp) =
           resp\<lparr>ReadResponse.Diagnostics :=
             Append (ReadResponse.Diagnostics resp) (Get_diags (ReadRequest.State req)) @
             [ErrorDiagnostic ''Error reading todo''
                (''Could not read todo ID '' @ i @ '': '' @ err)]\<rparr>"
proof -
  obtain diags state where req: "req = \<lparr>ReadRequest.State = Decoded diags state\<rparr>"
    by (rule ReadRequest_cases)
  from assms(1) have noerr: "\<not> HasError (Append (ReadResponse.Diagnostics resp) diags)"
    and i: "i = ValueString (todoResourceModel.ID state)"
    unfolding req Read_calls by (simp_all split: if_splits)
  have "todoResource_Read us ts client req resp =
           ([Call_GetTodo i],
            resp\<lparr>ReadResponse.Diagnostics :=
                   Append (ReadResponse.Diagnostics resp) (Get_diags (ReadRequest.State req)) @
                   [ErrorDiagnostic ''Error reading todo''
                      (''Could not read todo ID '' @ i @ '': '' @ err)]\<rparr>)"
    using noerr i assms(2) unfolding req by (intro Read_api_error) simp_all
  then show ?thesis by simp
qed

lemma Update_fails:
  assumes "fst (todoResource_Update us ts client req resp) = [Call_UpdateTodo i params]"
    and "UpdateTodo client i params = Inl err"
  shows "snd (todoResource_Update us ts client req resp) =
           resp\<lparr>UpdateResponse.Diagnostics :=
             Append (UpdateResponse.Diagnostics resp) (Get_diags (UpdateRequest.Plan req)) @
             [ErrorDiagnostic ''Error updating todo''
                (''Could not update todo, unexpected error: '' @ err)]\<rparr>"
proof -
  obtain diags plan prior where
    req: "req = \<lparr>UpdateRequest.Plan = Decoded diags plan, UpdateRequest.State = prior\<rparr>"
    by (rule UpdateRequest_cases)
  from assms(1) have noerr: "\<not> HasError (Append (UpdateResponse.Diagnostics resp) diags)"
    and i: "i = ValueString (todoResourceModel.ID plan)"
    and params: "params =
      \<lparr>TodoUpdateParams.Text = Some (ValueString (todoResourceModel.Text plan)),
       TodoUpdateParams.Priority = Some (ValueString (todoResourceModel.Priority plan)),
       TodoUpdateParams.Completed = Some (ValueBool (todoResourceModel.Completed plan))\<rparr>"
    unfolding req Update_calls by (simp_all split: if_splits)
  have "todoResource_Update us ts client req resp =
           ([Call_UpdateTodo i params],
            resp\<lparr>UpdateResponse.Diagnostics :=
                   Append (UpdateResponse.Diagnostics resp) (Get_diags (UpdateRequest.Plan req)) @
                   [ErrorDiagnostic ''Error updating todo''
                      (''Could not update todo, unexpected error: '' @ err)]\<rparr>)"
    using noerr i params assms(2) unfolding req by (intro Update_api_error) simp_all
  then show ?thesis by simp
qed

lemma Read_succeeds:
  assumes "fst (todoResource_Read us ts client req resp) = [Call_GetTodo i]"
    and "GetTodo client i = Inr td"
  shows "snd (todoResource_Read us ts client req resp) =
           resp\<lparr>ReadResponse.State := Some
                    \<lparr>todoResourceModel.ID = todoResourceModel.ID (Get_target (ReadRequest.State req)),
                     todoResourceModel.Text = StringValue (Todo.Text td),
                     todoResourceModel.Priority = StringValue (Todo.Priority td),
                     todoResourceModel.Completed = BoolValue (Todo.Completed td),
                     todoResourceModel.TimeCreated = StringValue (ts (Todo.TimeCreated td)),
                     todoResourceModel.TimeUpdated = StringValue (ts (Todo.TimeUpdated td))\<rparr>,
                  ReadResponse.Diagnostics :=
                    Append (ReadResponse.Diagnostics resp) (Get_diags (ReadRequest.State req))\<rparr>"
proof -
  obtain diags state where req: "req = \<lparr>ReadRequest.State = Decoded diags state\<rparr>"
    by (rule ReadRequest_cases)
  from assms(1) have noerr: "\<not> HasError (Append (ReadResponse.Diagnostics resp) diags)"
    and i: "i = ValueString (todoResourceModel.ID state)"
    unfolding req Read_calls by (simp_all split: if_splits)
  show ?thesis
    using noerr i assms(2) unfolding req by (subst Read_success [where td = td]) simp_all
qed

lemma Update_succeeds:
  assumes "fst (todoResource_Update us ts client req resp) = [Call_UpdateTodo i params]"
    and "UpdateTodo client i params = Inr td"
  shows "snd (todoResource_Update us ts client req resp) =
           resp\<lparr>UpdateResponse.State := Some
                    \<lparr>todoResourceModel.ID = todoResourceModel.ID (Get_target (UpdateRequest.Plan req)),
                     todoResourceModel.Text = StringValue (Todo.Text td),
                     todoResourceModel.Priority = StringValue (Todo.Priority td),
                     todoResourceModel.Completed = BoolValue (Todo.Completed td),
                     todoResourceModel.TimeCreated = StringValue (ts (Todo.TimeCreated td)),
                     todoResourceModel.TimeUpdated = StringValue (ts (Todo.TimeUpdated td))\<rparr>,
                  UpdateResponse.Diagnostics :=
                    Append (UpdateResponse.Diagnostics resp) (Get_diags (UpdateRequest.Plan req))\<rparr>"
proof -
  obtain diags plan prior where
    req: "req = \<lparr>UpdateRequest.Plan = Decoded diags plan, UpdateRequest.State = prior\<rparr>"
    by (rule UpdateRequest_cases)
  from assms(1) have noerr: "\<not> HasError (Append (UpdateResponse.Diagnostics resp) diags)"
    and i: "i = ValueString (todoResourceModel.ID plan)"
    and params: "params =
      \<lparr>TodoUpdateParams.Text = Some (ValueString (todoResourceModel.Text plan)),
       TodoUpdateParams.Priority = Some (ValueString (todoResourceModel.Priority plan)),
       TodoUpdateParams.Completed = Some (ValueBool (todoResourceModel.Completed plan))\<rparr>"
    unfolding req Update_calls by (simp_all split: if_splits)
  show ?thesis
    using noerr i params assms(2) unfolding req
    by (subst Update_success [where td = td and i = i and params = params]) simp_all
qed

lemma Read_state_cases:
  "ReadResponse.State (snd (todoResource_Read us ts client req resp)) = ReadResponse.State resp \<or>
   (\<exists>s. ReadResponse.State (snd (todoResource_Read us ts client req resp)) = Some s \<and>
        todoResourceModel.ID s = todoResourceModel.ID (Get_target (ReadRequest.State req)))"
  by (simp add: todoResource_Read_def Let_def State_Set_def split: sum.splits)

lemma Update_state_cases:
  "UpdateResponse.State (snd (todoResource_Update us ts client req resp)) = UpdateResponse.State resp \<or>
   (\<exists>s. UpdateResponse.State (snd (todoResource_Update us ts client req resp)) = Some s \<and>
        todoResourceModel.ID s = todoResourceModel.ID (Get_target (UpdateRequest.Plan req)))"
  by (simp add: todoResource_Update_def Let_def State_Set_def split: sum.splits)

lemma datasource_Read_success:
  assumes "ListTodos client = Inr todos"
  shows "todosDataSource_Read us ts client resp =
           ([Call_ListTodos],
            resp\<lparr>datasource_ReadResponse.State := Some
              \<lparr>todosDataSourceState.ID = StringValue ''todos_id_placeholder'',
               todosDataSourceState.Todos =
                 (if todos = [] then ListNull
                  else ListValue
                    (map (\<lambda>todo. \<lparr>todosModel.ID = StringValue (us (Todo.ID todo)),
                         todosModel.Text = StringValue (Todo.Text todo),
                         todosModel.Priority = StringValue (Todo.Priority todo),
                         todosModel.Completed = BoolValue (Todo.Completed todo),
                         todosModel.TimeCreated = StringValue (ts (Todo.TimeCreated todo)),
                         todosModel.TimeUpdated = StringValue (ts (Todo.TimeUpdated todo))\<rparr>) todos))\<rparr>\<rparr>)"
  using assms
  by (simp add: todosDataSource_Read_def Let_def datasource_State_Set_def todos_loop_map)

section \<open>The todo resource: the claims\<close>



text \<open>
  Claim C10. \<^verbatim>\<open>Create\<close> treats a priority set to the empty string as it treats an unset
  one: the two invocations give the same calls and the same response, the request
  carries the priority "low", and no create request of any invocation carries an empty
  priority.
\<close>

theorem Create_empty_priority_as_unset:
  "todoResource_Create us ts client
      \<lparr>CreateRequest.Plan = Decoded diags (plan\<lparr>todoResourceModel.Priority := StringValue []\<rparr>)\<rparr> resp
     = todoResource_Create us ts client
         \<lparr>CreateRequest.Plan = Decoded diags (plan\<lparr>todoResourceModel.Priority := StringNull\<rparr>)\<rparr> resp
   \<and> (\<not> HasError (Append (CreateResponse.Diagnostics resp) diags) \<longrightarrow>
        fst (todoResource_Create us ts client
               \<lparr>CreateRequest.Plan = Decoded diags (plan\<lparr>todoResourceModel.Priority := StringValue []\<rparr>)\<rparr> resp)
          = [Call_CreateTodo \<lparr>TodoCreateParams.Text = ValueString (todoResourceModel.Text plan),
                              TodoCreateParams.Priority = ''low''\<rparr>])
   \<and> (\<forall>p. Call_CreateTodo p \<in> set (fst (todoResource_Create us ts client req resp)) \<longrightarrow>
            TodoCreateParams.Priority p \<noteq> [])"
proof -
  have never_empty: "TodoCreateParams.Priority p \<noteq> []"
    if "Call_CreateTodo p \<in> set (fst (todoResource_Create us ts client req resp))" for p
  proof -
    obtain diags' plan' where req: "req = \<lparr>CreateRequest.Plan = Decoded diags' plan'\<rparr>"
      by (cases req, cases "CreateRequest.Plan req") auto
    show ?thesis
      using that unfolding req Create_calls
      by (auto simp: PriorityLow_def split: if_splits)
  qed
  have same: "todoResource_Create us ts client
      \<lparr>CreateRequest.Plan = Decoded diags (plan\<lparr>todoResourceModel.Priority := StringValue []\<rparr>)\<rparr> resp
     = todoResource_Create us ts client
         \<lparr>CreateRequest.Plan = Decoded diags (plan\<lparr>todoResourceModel.Priority := StringNull\<rparr>)\<rparr> resp"
    by (simp add: todoResource_Create_def Let_def split: sum.splits)
  show ?thesis
    using never_empty same by (simp add: Create_calls PriorityLow_def)
qed

theorem Create_empty_priority_as_unset_witness:
  "fst (todoResource_Create id id echo_client
          \<lparr>CreateRequest.Plan = Decoded []
             \<lparr>todoResourceModel.ID = StringUnknown, todoResourceModel.Text = StringValue ''buy milk'',
              todoResourceModel.Priority = StringValue [], todoResourceModel.Completed = BoolUnknown,
              todoResourceModel.TimeCreated = StringUnknown,
              todoResourceModel.TimeUpdated = StringUnknown\<rparr>\<rparr>
          \<lparr>CreateResponse.State = None, CreateResponse.Diagnostics = []\<rparr>)
     = [Call_CreateTodo \<lparr>TodoCreateParams.Text = ''buy milk'', TodoCreateParams.Priority = ''low''\<rparr>]"
  using Create_empty_priority_as_unset
          [where us = id and ts = id and client = echo_client and diags = "[]"
             and resp = "\<lparr>CreateResponse.State = None, CreateResponse.Diagnostics = []\<rparr>"
             and plan = "\<lparr>todoResourceModel.ID = StringUnknown, todoResourceModel.Text = StringValue ''buy milk'',
              todoResourceModel.Priority = StringValue [], todoResourceModel.Completed = BoolUnknown,
              todoResourceModel.TimeCreated = StringUnknown,
              todoResourceModel.TimeUpdated = StringUnknown\<rparr>",
           simplified]
  by blast

text \<open>
  Claim C5 says that after a successful create call the new state holds the fields of
  the API response, and that the stored text and priority echo the submitted values.
  The second part does not hold. \<^verbatim>\<open>Create\<close> stores the text and priority of the
  response and does not compare them with what it sent: in the instance below the
  request carries the text "buy milk" and the priority "low", the server answers with
  "BUY MILK" and "medium", and these are what the state holds.
\<close>

theorem Create_stores_response_not_request_counterexample:
  "fst (todoResource_Create id id rewriting_client \<lparr>CreateRequest.Plan = Decoded [] new_plan\<rparr>
          \<lparr>CreateResponse.State = None, CreateResponse.Diagnostics = []\<rparr>)
     = [Call_CreateTodo \<lparr>TodoCreateParams.Text = ''buy milk'', TodoCreateParams.Priority = ''low''\<rparr>] \<and>
   CreateResponse.State (snd (todoResource_Create id id rewriting_client
          \<lparr>CreateRequest.Plan = Decoded [] new_plan\<rparr>
          \<lparr>CreateResponse.State = None, CreateResponse.Diagnostics = []\<rparr>))
     = Some \<lparr>todoResourceModel.ID = StringValue ''0b5d2c1e-0000-4000-8000-000000000003'',
             todoResourceModel.Text = StringValue ''BUY MILK'',
             todoResourceModel.Priority = StringValue ''medium'',
             todoResourceModel.Completed = BoolValue False,
             todoResourceModel.TimeCreated = StringValue ''2023-02-01 09:00:00 +0000 UTC'',
             todoResourceModel.TimeUpdated = StringValue ''2023-02-01 09:00:00 +0000 UTC''\<rparr>"
  by (simp add: todoResource_Create_def Let_def State_Set_def new_plan_def PriorityLow_def
        rewriting_client_def rewriting_CreateTodo_def echo_client_def)

text \<open>
  Claim C5, amended. When the \<^verbatim>\<open>CreateTodo\<close> call that \<^verbatim>\<open>Create\<close> makes succeeds, the
  new state holds the six fields of the API response and nothing of the request: the
  id and the two timestamps are the server's, rendered as strings, and text, priority
  and completed are the values that the server returned. No diagnostic is added beyond
  those of reading the plan.
\<close>

theorem Create_success_stores_response:
  assumes "fst (todoResource_Create us ts client req resp) = [Call_CreateTodo params]"
    and "CreateTodo client params = Inr td"
  shows "snd (todoResource_Create us ts client req resp) =
           resp\<lparr>CreateResponse.State := Some
                    \<lparr>todoResourceModel.ID = StringValue (us (Todo.ID td)),
                     todoResourceModel.Text = StringValue (Todo.Text td),
                     todoResourceModel.Priority = StringValue (Todo.Priority td),
                     todoResourceModel.Completed = BoolValue (Todo.Completed td),
                     todoResourceModel.TimeCreated = StringValue (ts (Todo.TimeCreated td)),
                     todoResourceModel.TimeUpdated = StringValue (ts (Todo.TimeUpdated td))\<rparr>,
                  CreateResponse.Diagnostics :=
                    Append (CreateResponse.Diagnostics resp) (Get_diags (CreateRequest.Plan req))\<rparr>"
proof -
  obtain diags plan where req: "req = \<lparr>CreateRequest.Plan = Decoded diags plan\<rparr>"
    by (rule CreateRequest_cases)
  from assms(1) have noerr: "\<not> HasError (Append (CreateResponse.Diagnostics resp) diags)"
    and params: "params =
      \<lparr>TodoCreateParams.Text = ValueString (todoResourceModel.Text plan),
       TodoCreateParams.Priority =
         (if ValueString (todoResourceModel.Priority plan) = [] then PriorityLow
          else ValueString (todoResourceModel.Priority plan))\<rparr>"
    unfolding req Create_calls by (simp_all split: if_splits)
  have "todoResource_Create us ts client req resp =
           ([Call_CreateTodo params],
            resp\<lparr>CreateResponse.State := Some
                    \<lparr>todoResourceModel.ID = StringValue (us (Todo.ID td)),
                     todoResourceModel.Text = StringValue (Todo.Text td),
                     todoResourceModel.Priority = StringValue (Todo.Priority td),
                     todoResourceModel.Completed = BoolValue (Todo.Completed td),
                     todoResourceModel.TimeCreated = StringValue (ts (Todo.TimeCreated td)),
                     todoResourceModel.TimeUpdated = StringValue (ts (Todo.TimeUpdated td))\<rparr>,
                  CreateResponse.Diagnostics :=
                    Append (CreateResponse.Diagnostics resp) (Get_diags (CreateRequest.Plan req))\<rparr>)"
    using noerr params assms(2) unfolding req by (intro Create_success) simp_all
  then show ?thesis by simp
qed

theorem Create_success_stores_response_witness:
  "fst (todoResource_Create id id echo_client \<lparr>CreateRequest.Plan = Decoded [] new_plan\<rparr>
          \<lparr>CreateResponse.State = None, CreateResponse.Diagnostics = []\<rparr>)
     = [Call_CreateTodo \<lparr>TodoCreateParams.Text = ''buy milk'', TodoCreateParams.Priority = ''low''\<rparr>] \<and>
   CreateTodo echo_client \<lparr>TodoCreateParams.Text = ''buy milk'', TodoCreateParams.Priority = ''low''\<rparr>
     = Inr \<lparr>Todo.ID = ''0b5d2c1e-0000-4000-8000-000000000002'', Todo.Text = ''buy milk'',
            Todo.Priority = ''low'', Todo.Completed = False,
            Todo.TimeCreated = ''2023-02-01 09:00:00 +0000 UTC'',
            Todo.TimeUpdated = ''2023-02-01 09:00:00 +0000 UTC''\<rparr> \<and>
   CreateResponse.State (snd (todoResource_Create id id echo_client
          \<lparr>CreateRequest.Plan = Decoded [] new_plan\<rparr>
          \<lparr>CreateResponse.State = None, CreateResponse.Diagnostics = []\<rparr>))
     = Some \<lparr>todoResourceModel.ID = StringValue ''0b5d2c1e-0000-4000-8000-000000000002'',
             todoResourceModel.Text = StringValue ''buy milk'',
             todoResourceModel.Priority = StringValue ''low'',
             todoResourceModel.Completed = BoolValue False,
             todoResourceModel.TimeCreated = StringValue ''2023-02-01 09:00:00 +0000 UTC'',
             todoResourceModel.TimeUpdated = StringValue ''2023-02-01 09:00:00 +0000 UTC''\<rparr>"
proof -
  have h1: "fst (todoResource_Create id id echo_client \<lparr>CreateRequest.Plan = Decoded [] new_plan\<rparr>
          \<lparr>CreateResponse.State = None, CreateResponse.Diagnostics = []\<rparr>)
     = [Call_CreateTodo \<lparr>TodoCreateParams.Text = ''buy milk'', TodoCreateParams.Priority = ''low''\<rparr>]"
    by (simp add: Create_calls new_plan_def PriorityLow_def)
  have h2: "CreateTodo echo_client \<lparr>TodoCreateParams.Text = ''buy milk'', TodoCreateParams.Priority = ''low''\<rparr>
     = Inr \<lparr>Todo.ID = ''0b5d2c1e-0000-4000-8000-000000000002'', Todo.Text = ''buy milk'',
            Todo.Priority = ''low'', Todo.Completed = False,
            Todo.TimeCreated = ''2023-02-01 09:00:00 +0000 UTC'',
            Todo.TimeUpdated = ''2023-02-01 09:00:00 +0000 UTC''\<rparr>"
    by (simp add: echo_client_def echo_CreateTodo_def)
  show ?thesis
    using h1 h2 Create_success_stores_response [OF h1 h2] by simp
qed

text \<open>
  Claim C3. When the API call made by \<^verbatim>\<open>Create\<close>, \<^verbatim>\<open>Read\<close> or \<^verbatim>\<open>Update\<close> returns an
  error, the operation leaves the state of the response as it was handed in and adds
  one error diagnostic, which carries the text of the API's error, after the
  diagnostics collected so far.
\<close>

theorem api_error_leaves_state:
  "(fst (todoResource_Create us ts client creq cresp) = [Call_CreateTodo cparams] \<and>
    CreateTodo client cparams = Inl cerr \<longrightarrow>
      CreateResponse.State (snd (todoResource_Create us ts client creq cresp)) =
        CreateResponse.State cresp \<and>
      CreateResponse.Diagnostics (snd (todoResource_Create us ts client creq cresp)) =
        Append (CreateResponse.Diagnostics cresp) (Get_diags (CreateRequest.Plan creq)) @
        [ErrorDiagnostic ''Error creating todo''
           (''Could not create todo, unexpected error: '' @ cerr)]) \<and>
   (fst (todoResource_Read us ts client rreq rresp) = [Call_GetTodo rid] \<and>
    GetTodo client rid = Inl rerr \<longrightarrow>
      ReadResponse.State (snd (todoResource_Read us ts client rreq rresp)) =
        ReadResponse.State rresp \<and>
      ReadResponse.Diagnostics (snd (todoResource_Read us ts client rreq rresp)) =
        Append (ReadResponse.Diagnostics rresp) (Get_diags (ReadRequest.State rreq)) @
        [ErrorDiagnostic ''Error reading todo''
           (''Could not read todo ID '' @ rid @ '': '' @ rerr)]) \<and>
   (fst (todoResource_Update us ts client ureq uresp) = [Call_UpdateTodo uid uparams] \<and>
    UpdateTodo client uid uparams = Inl uerr \<longrightarrow>
      UpdateResponse.State (snd (todoResource_Update us ts client ureq uresp)) =
        UpdateResponse.State uresp \<and>
      UpdateResponse.Diagnostics (snd (todoResource_Update us ts client ureq uresp)) =
        Append (UpdateResponse.Diagnostics uresp) (Get_diags (UpdateRequest.Plan ureq)) @
        [ErrorDiagnostic ''Error updating todo''
           (''Could not update todo, unexpected error: '' @ uerr)])"
  by (simp add: Create_fails Read_fails Update_fails)

theorem api_error_leaves_state_witness:
  "fst (todoResource_Create id id failing_client \<lparr>CreateRequest.Plan = Decoded [] new_plan\<rparr>
          \<lparr>CreateResponse.State = None, CreateResponse.Diagnostics = []\<rparr>)
     = [Call_CreateTodo \<lparr>TodoCreateParams.Text = ''buy milk'', TodoCreateParams.Priority = ''low''\<rparr>] \<and>
   CreateTodo failing_client \<lparr>TodoCreateParams.Text = ''buy milk'', TodoCreateParams.Priority = ''low''\<rparr>
     = Inl ''connection refused'' \<and>
   snd (todoResource_Create id id failing_client \<lparr>CreateRequest.Plan = Decoded [] new_plan\<rparr>
          \<lparr>CreateResponse.State = None, CreateResponse.Diagnostics = []\<rparr>)
     = \<lparr>CreateResponse.State = None,
        CreateResponse.Diagnostics =
          [ErrorDiagnostic ''Error creating todo''
             ''Could not create todo, unexpected error: connection refused'']\<rparr> \<and>
   fst (todoResource_Read id id failing_client \<lparr>ReadRequest.State = Decoded [] prior_state\<rparr>
          \<lparr>ReadResponse.State = Some prior_state, ReadResponse.Diagnostics = []\<rparr>)
     = [Call_GetTodo ''0b5d2c1e-0000-4000-8000-000000000001''] \<and>
   GetTodo failing_client ''0b5d2c1e-0000-4000-8000-000000000001'' = Inl ''connection refused'' \<and>
   snd (todoResource_Read id id failing_client \<lparr>ReadRequest.State = Decoded [] prior_state\<rparr>
          \<lparr>ReadResponse.State = Some prior_state, ReadResponse.Diagnostics = []\<rparr>)
     = \<lparr>ReadResponse.State = Some prior_state,
        ReadResponse.Diagnostics =
          [ErrorDiagnostic ''Error reading todo''
             ''Could not read todo ID 0b5d2c1e-0000-4000-8000-000000000001: connection refused'']\<rparr> \<and>
   fst (todoResource_Update id id failing_client
          \<lparr>UpdateRequest.Plan = Decoded [] update_plan, UpdateRequest.State = Decoded [] prior_state\<rparr>
          \<lparr>UpdateResponse.State = Some prior_state, UpdateResponse.Diagnostics = []\<rparr>)
     = [Call_UpdateTodo ''0b5d2c1e-0000-4000-8000-000000000001''
          \<lparr>TodoUpdateParams.Text = Some ''water the garden'', TodoUpdateParams.Priority = Some [],
           TodoUpdateParams.Completed = Some False\<rparr>] \<and>
   UpdateTodo failing_client ''0b5d2c1e-0000-4000-8000-000000000001''
          \<lparr>TodoUpdateParams.Text = Some ''water the garden'', TodoUpdateParams.Priority = Some [],
           TodoUpdateParams.Completed = Some False\<rparr> = Inl ''connection refused'' \<and>
   snd (todoResource_Update id id failing_client
          \<lparr>UpdateRequest.Plan = Decoded [] update_plan, UpdateRequest.State = Decoded [] prior_state\<rparr>
          \<lparr>UpdateResponse.State = Some prior_state, UpdateResponse.Diagnostics = []\<rparr>)
     = \<lparr>UpdateResponse.State = Some prior_state,
        UpdateResponse.Diagnostics =
          [ErrorDiagnostic ''Error updating todo''
             ''Could not update todo, unexpected error: connection refused'']\<rparr>"
proof -
  have c1: "fst (todoResource_Create id id failing_client \<lparr>CreateRequest.Plan = Decoded [] new_plan\<rparr>
          \<lparr>CreateResponse.State = None, CreateResponse.Diagnostics = []\<rparr>)
     = [Call_CreateTodo \<lparr>TodoCreateParams.Text = ''buy milk'', TodoCreateParams.Priority = ''low''\<rparr>]"
    by (simp add: Create_calls new_plan_def PriorityLow_def)
  have c2: "CreateTodo failing_client \<lparr>TodoCreateParams.Text = ''buy milk'', TodoCreateParams.Priority = ''low''\<rparr>
     = Inl ''connection refused''"
    by (simp add: failing_client_def failing_CreateTodo_def)
  have r1: "fst (todoResource_Read id id failing_client \<lparr>ReadRequest.State = Decoded [] prior_state\<rparr>
          \<lparr>ReadResponse.State = Some prior_state, ReadResponse.Diagnostics = []\<rparr>)
     = [Call_GetTodo ''0b5d2c1e-0000-4000-8000-000000000001'']"
    by (simp add: Read_calls prior_state_def)
  have r2: "GetTodo failing_client ''0b5d2c1e-0000-4000-8000-000000000001'' = Inl ''connection refused''"
    by (simp add: failing_client_def failing_GetTodo_def)
  have u1: "fst (todoResource_Update id id failing_client
          \<lparr>UpdateRequest.Plan = Decoded [] update_plan, UpdateRequest.State = Decoded [] prior_state\<rparr>
          \<lparr>UpdateResponse.State = Some prior_state, UpdateResponse.Diagnostics = []\<rparr>)
     = [Call_UpdateTodo ''0b5d2c1e-0000-4000-8000-000000000001''
          \<lparr>TodoUpdateParams.Text = Some ''water the garden'', TodoUpdateParams.Priority = Some [],
           TodoUpdateParams.Completed = Some False\<rparr>]"
    by (simp add: Update_calls update_plan_def)
  have u2: "UpdateTodo failing_client ''0b5d2c1e-0000-4000-8000-000000000001''
          \<lparr>TodoUpdateParams.Text = Some ''water the garden'', TodoUpdateParams.Priority = Some [],
           TodoUpdateParams.Completed = Some False\<rparr> = Inl ''connection refused''"
    by (simp add: failing_client_def failing_UpdateTodo_def)
  note t = api_error_leaves_state
             [where us = id and ts = id and client = failing_client
                and creq = "\<lparr>CreateRequest.Plan = Decoded [] new_plan\<rparr>"
                and cresp = "\<lparr>CreateResponse.State = None, CreateResponse.Diagnostics = []\<rparr>"
                and cparams = "\<lparr>TodoCreateParams.Text = ''buy milk'', TodoCreateParams.Priority = ''low''\<rparr>"
                and cerr = "''connection refused''"
                and rreq = "\<lparr>ReadRequest.State = Decoded [] prior_state\<rparr>"
                and rresp = "\<lparr>ReadResponse.State = Some prior_state, ReadResponse.Diagnostics = []\<rparr>"
                and rid = "''0b5d2c1e-0000-4000-8000-000000000001''"
                and rerr = "''connection refused''"
                and ureq = "\<lparr>UpdateRequest.Plan = Decoded [] update_plan, UpdateRequest.State = Decoded [] prior_state\<rparr>"
                and uresp = "\<lparr>UpdateResponse.State = Some prior_state, UpdateResponse.Diagnostics = []\<rparr>"
                and uid = "''0b5d2c1e-0000-4000-8000-000000000001''"
                and uparams = "\<lparr>TodoUpdateParams.Text = Some ''water the garden'', TodoUpdateParams.Priority = Some [],
           TodoUpdateParams.Completed = Some False\<rparr>"
                and uerr = "''connection refused''"]
  have cs: "snd (todoResource_Create id id failing_client \<lparr>CreateRequest.Plan = Decoded [] new_plan\<rparr>
          \<lparr>CreateResponse.State = None, CreateResponse.Diagnostics = []\<rparr>)
     = \<lparr>CreateResponse.State = None,
        CreateResponse.Diagnostics =
          [ErrorDiagnostic ''Error creating todo''
             ''Could not create todo, unexpected error: connection refused'']\<rparr>"
    using t c1 c2 by (intro CreateResponse.equality) simp_all
  have rs: "snd (todoResource_Read id id failing_client \<lparr>ReadRequest.State = Decoded [] prior_state\<rparr>
          \<lparr>ReadResponse.State = Some prior_state, ReadResponse.Diagnostics = []\<rparr>)
     = \<lparr>ReadResponse.State = Some prior_state,
        ReadResponse.Diagnostics =
          [ErrorDiagnostic ''Error reading todo''
             ''Could not read todo ID 0b5d2c1e-0000-4000-8000-000000000001: connection refused'']\<rparr>"
    using t r1 r2 by (intro ReadResponse.equality) simp_all
  have us: "snd (todoResource_Update id id failing_client
          \<lparr>UpdateRequest.Plan = Decoded [] update_plan, UpdateRequest.State = Decoded [] prior_state\<rparr>
          \<lparr>UpdateResponse.State = Some prior_state, UpdateResponse.Diagnostics = []\<rparr>)
     = \<lparr>UpdateResponse.State = Some prior_state,
        UpdateResponse.Diagnostics =
          [ErrorDiagnostic ''Error updating todo''
             ''Could not update todo, unexpected error: connection refused'']\<rparr>"
    using t u1 u2 by (intro UpdateResponse.equality) simp_all
  show ?thesis
    using c1 c2 cs r1 r2 rs u1 u2 us by blast
qed

text \<open>
  Claim C6. The id in the state does not change after creation. A successful \<^verbatim>\<open>Read\<close>
  stores the id of the incoming state beside the five other fields taken from the
  response, and a successful \<^verbatim>\<open>Update\<close> stores the id of the plan in the same way; when
  the response handed in already holds a state with that id, as the framework arranges,
  the state that comes out holds that id whether the operation succeeds or fails. The
  request bodies hold neither an id nor timestamps: the body that \<^verbatim>\<open>Create\<close> or \<^verbatim>\<open>Update\<close>
  sends stays the same when the plan's id and timestamps are replaced by any others
  (the id of an update is the separate argument that names the item).
\<close>

theorem id_immutable_and_not_sent:
  "(fst (todoResource_Read us ts client rreq rresp) = [Call_GetTodo rid] \<and>
    GetTodo client rid = Inr rtd \<longrightarrow>
      ReadResponse.State (snd (todoResource_Read us ts client rreq rresp)) =
        Some \<lparr>todoResourceModel.ID = todoResourceModel.ID (Get_target (ReadRequest.State rreq)),
              todoResourceModel.Text = StringValue (Todo.Text rtd),
              todoResourceModel.Priority = StringValue (Todo.Priority rtd),
              todoResourceModel.Completed = BoolValue (Todo.Completed rtd),
              todoResourceModel.TimeCreated = StringValue (ts (Todo.TimeCreated rtd)),
              todoResourceModel.TimeUpdated = StringValue (ts (Todo.TimeUpdated rtd))\<rparr>) \<and>
   (\<forall>s0. ReadResponse.State rresp = Some s0 \<and>
         todoResourceModel.ID s0 = todoResourceModel.ID (Get_target (ReadRequest.State rreq)) \<longrightarrow>
      (\<exists>s. ReadResponse.State (snd (todoResource_Read us ts client rreq rresp)) = Some s \<and>
           todoResourceModel.ID s = todoResourceModel.ID (Get_target (ReadRequest.State rreq)))) \<and>
   (fst (todoResource_Update us ts client ureq uresp) = [Call_UpdateTodo uid uparams] \<and>
    UpdateTodo client uid uparams = Inr utd \<longrightarrow>
      UpdateResponse.State (snd (todoResource_Update us ts client ureq uresp)) =
        Some \<lparr>todoResourceModel.ID = todoResourceModel.ID (Get_target (UpdateRequest.Plan ureq)),
              todoResourceModel.Text = StringValue (Todo.Text utd),
              todoResourceModel.Priority = StringValue (Todo.Priority utd),
              todoResourceModel.Completed = BoolValue (Todo.Completed utd),
              todoResourceModel.TimeCreated = StringValue (ts (Todo.TimeCreated utd)),
              todoResourceModel.TimeUpdated = StringValue (ts (Todo.TimeUpdated utd))\<rparr>) \<and>
   (\<forall>s0. UpdateResponse.State uresp = Some s0 \<and>
         todoResourceModel.ID s0 = todoResourceModel.ID (Get_target (UpdateRequest.Plan ureq)) \<longrightarrow>
      (\<exists>s. UpdateResponse.State (snd (todoResource_Update us ts client ureq uresp)) = Some s \<and>
           todoResourceModel.ID s = todoResourceModel.ID (Get_target (UpdateRequest.Plan ureq)))) \<and>
   (\<forall>p. Call_CreateTodo p \<in> set (fst (todoResource_Create us ts client
              \<lparr>CreateRequest.Plan = Decoded diags plan\<rparr> cresp)) \<longrightarrow>
        Call_CreateTodo p \<in> set (fst (todoResource_Create us ts client
              \<lparr>CreateRequest.Plan = Decoded diags
                 (plan\<lparr>todoResourceModel.ID := i', todoResourceModel.TimeCreated := tc',
                       todoResourceModel.TimeUpdated := tu'\<rparr>)\<rparr> cresp))) \<and>
   (\<forall>i p. Call_UpdateTodo i p \<in> set (fst (todoResource_Update us ts client
              \<lparr>UpdateRequest.Plan = Decoded diags plan, UpdateRequest.State = prior\<rparr> uresp)) \<longrightarrow>
        Call_UpdateTodo (ValueString i') p \<in> set (fst (todoResource_Update us ts client
              \<lparr>UpdateRequest.Plan = Decoded diags
                 (plan\<lparr>todoResourceModel.ID := i', todoResourceModel.TimeCreated := tc',
                       todoResourceModel.TimeUpdated := tu'\<rparr>),
               UpdateRequest.State = prior\<rparr> uresp)))"
proof -
  have r1: "ReadResponse.State (snd (todoResource_Read us ts client rreq rresp)) =
        Some \<lparr>todoResourceModel.ID = todoResourceModel.ID (Get_target (ReadRequest.State rreq)),
              todoResourceModel.Text = StringValue (Todo.Text rtd),
              todoResourceModel.Priority = StringValue (Todo.Priority rtd),
              todoResourceModel.Completed = BoolValue (Todo.Completed rtd),
              todoResourceModel.TimeCreated = StringValue (ts (Todo.TimeCreated rtd)),
              todoResourceModel.TimeUpdated = StringValue (ts (Todo.TimeUpdated rtd))\<rparr>"
    if "fst (todoResource_Read us ts client rreq rresp) = [Call_GetTodo rid]"
      and "GetTodo client rid = Inr rtd"
    using Read_succeeds [OF that] by simp
  have r2: "\<exists>s. ReadResponse.State (snd (todoResource_Read us ts client rreq rresp)) = Some s \<and>
           todoResourceModel.ID s = todoResourceModel.ID (Get_target (ReadRequest.State rreq))"
    if "ReadResponse.State rresp = Some s0"
      and "todoResourceModel.ID s0 = todoResourceModel.ID (Get_target (ReadRequest.State rreq))" for s0
    using that Read_state_cases [of us ts client rreq rresp] by auto
  have u1: "UpdateResponse.State (snd (todoResource_Update us ts client ureq uresp)) =
        Some \<lparr>todoResourceModel.ID = todoResourceModel.ID (Get_target (UpdateRequest.Plan ureq)),
              todoResourceModel.Text = StringValue (Todo.Text utd),
              todoResourceModel.Priority = StringValue (Todo.Priority utd),
              todoResourceModel.Completed = BoolValue (Todo.Completed utd),
              todoResourceModel.TimeCreated = StringValue (ts (Todo.TimeCreated utd)),
              todoResourceModel.TimeUpdated = StringValue (ts (Todo.TimeUpdated utd))\<rparr>"
    if "fst (todoResource_Update us ts client ureq uresp) = [Call_UpdateTodo uid uparams]"
      and "UpdateTodo client uid uparams = Inr utd"
    using Update_succeeds [OF that] by simp
  have u2: "\<exists>s. UpdateResponse.State (snd (todoResource_Update us ts client ureq uresp)) = Some s \<and>
           todoResourceModel.ID s = todoResourceModel.ID (Get_target (UpdateRequest.Plan ureq))"
    if "UpdateResponse.State uresp = Some s0"
      and "todoResourceModel.ID s0 = todoResourceModel.ID (Get_target (UpdateRequest.Plan ureq))" for s0
    using that Update_state_cases [of us ts client ureq uresp] by auto
  have b1: "Call_CreateTodo p \<in> set (fst (todoResource_Create us ts client
              \<lparr>CreateRequest.Plan = Decoded diags
                 (plan\<lparr>todoResourceModel.ID := i', todoResourceModel.TimeCreated := tc',
                       todoResourceModel.TimeUpdated := tu'\<rparr>)\<rparr> cresp))"
    if "Call_CreateTodo p \<in> set (fst (todoResource_Create us ts client
              \<lparr>CreateRequest.Plan = Decoded diags plan\<rparr> cresp))" for p
    using that unfolding Create_calls by (simp split: if_splits)
  have b2: "Call_UpdateTodo (ValueString i') p \<in> set (fst (todoResource_Update us ts client
              \<lparr>UpdateRequest.Plan = Decoded diags
                 (plan\<lparr>todoResourceModel.ID := i', todoResourceModel.TimeCreated := tc',
                       todoResourceModel.TimeUpdated := tu'\<rparr>),
               UpdateRequest.State = prior\<rparr> uresp))"
    if "Call_UpdateTodo i p \<in> set (fst (todoResource_Update us ts client
              \<lparr>UpdateRequest.Plan = Decoded diags plan, UpdateRequest.State = prior\<rparr> uresp))" for i p
    using that unfolding Update_calls by (simp split: if_splits)
  show ?thesis
    using r1 r2 u1 u2 b1 b2 by blast
qed

theorem id_immutable_and_not_sent_witness:
  "fst (todoResource_Read id id echo_client \<lparr>ReadRequest.State = Decoded [] prior_state\<rparr>
          \<lparr>ReadResponse.State = Some prior_state, ReadResponse.Diagnostics = []\<rparr>)
     = [Call_GetTodo ''0b5d2c1e-0000-4000-8000-000000000001''] \<and>
   GetTodo echo_client ''0b5d2c1e-0000-4000-8000-000000000001'' = Inr stored_todo \<and>
   ReadResponse.State (snd (todoResource_Read id id echo_client
          \<lparr>ReadRequest.State = Decoded [] prior_state\<rparr>
          \<lparr>ReadResponse.State = Some prior_state, ReadResponse.Diagnostics = []\<rparr>))
     = Some prior_state \<and>
   fst (todoResource_Update id id echo_client
          \<lparr>UpdateRequest.Plan = Decoded [] update_plan_medium,
           UpdateRequest.State = Decoded [] prior_state\<rparr>
          \<lparr>UpdateResponse.State = Some prior_state, UpdateResponse.Diagnostics = []\<rparr>)
     = [Call_UpdateTodo ''0b5d2c1e-0000-4000-8000-000000000001''
          \<lparr>TodoUpdateParams.Text = Some ''water the garden'',
           TodoUpdateParams.Priority = Some ''medium'',
           TodoUpdateParams.Completed = Some False\<rparr>] \<and>
   UpdateTodo echo_client ''0b5d2c1e-0000-4000-8000-000000000001''
          \<lparr>TodoUpdateParams.Text = Some ''water the garden'',
           TodoUpdateParams.Priority = Some ''medium'',
           TodoUpdateParams.Completed = Some False\<rparr>
     = Inr \<lparr>Todo.ID = ''0b5d2c1e-0000-4000-8000-000000000001'', Todo.Text = ''water the garden'',
            Todo.Priority = ''medium'', Todo.Completed = False,
            Todo.TimeCreated = ''2023-01-01 10:00:00 +0000 UTC'',
            Todo.TimeUpdated = ''2023-03-01 12:00:00 +0000 UTC''\<rparr> \<and>
   UpdateResponse.State (snd (todoResource_Update id id echo_client
          \<lparr>UpdateRequest.Plan = Decoded [] update_plan_medium,
           UpdateRequest.State = Decoded [] prior_state\<rparr>
          \<lparr>UpdateResponse.State = Some prior_state, UpdateResponse.Diagnostics = []\<rparr>))
     = Some \<lparr>todoResourceModel.ID = StringValue ''0b5d2c1e-0000-4000-8000-000000000001'',
             todoResourceModel.Text = StringValue ''water the garden'',
             todoResourceModel.Priority = StringValue ''medium'',
             todoResourceModel.Completed = BoolValue False,
             todoResourceModel.TimeCreated = StringValue ''2023-01-01 10:00:00 +0000 UTC'',
             todoResourceModel.TimeUpdated = StringValue ''2023-03-01 12:00:00 +0000 UTC''\<rparr> \<and>
   Call_CreateTodo \<lparr>TodoCreateParams.Text = ''water the garden'', TodoCreateParams.Priority = ''medium''\<rparr>
     \<in> set (fst (todoResource_Create id id echo_client
          \<lparr>CreateRequest.Plan = Decoded []
             (update_plan_medium\<lparr>todoResourceModel.ID := StringValue ''another-id'',
                todoResourceModel.TimeCreated := StringValue ''2024-01-01 00:00:00 +0000 UTC'',
                todoResourceModel.TimeUpdated := StringValue ''2024-01-01 00:00:00 +0000 UTC''\<rparr>)\<rparr>
          \<lparr>CreateResponse.State = None, CreateResponse.Diagnostics = []\<rparr>)) \<and>
   Call_UpdateTodo ''another-id''
       \<lparr>TodoUpdateParams.Text = Some ''water the garden'',
        TodoUpdateParams.Priority = Some ''medium'',
        TodoUpdateParams.Completed = Some False\<rparr>
     \<in> set (fst (todoResource_Update id id echo_client
          \<lparr>UpdateRequest.Plan = Decoded []
             (update_plan_medium\<lparr>todoResourceModel.ID := StringValue ''another-id'',
                todoResourceModel.TimeCreated := StringValue ''2024-01-01 00:00:00 +0000 UTC'',
                todoResourceModel.TimeUpdated := StringValue ''2024-01-01 00:00:00 +0000 UTC''\<rparr>),
           UpdateRequest.State = Decoded [] prior_state\<rparr>
          \<lparr>UpdateResponse.State = Some prior_state, UpdateResponse.Diagnostics = []\<rparr>))"
proof -
  have r1: "fst (todoResource_Read id id echo_client \<lparr>ReadRequest.State = Decoded [] prior_state\<rparr>
          \<lparr>ReadResponse.State = Some prior_state, ReadResponse.Diagnostics = []\<rparr>)
     = [Call_GetTodo ''0b5d2c1e-0000-4000-8000-000000000001'']"
    by (simp add: Read_calls prior_state_def)
  have r2: "GetTodo echo_client ''0b5d2c1e-0000-4000-8000-000000000001'' = Inr stored_todo"
    by (simp add: echo_client_def echo_GetTodo_def stored_todo_def)
  have u1: "fst (todoResource_Update id id echo_client
          \<lparr>UpdateRequest.Plan = Decoded [] update_plan_medium,
           UpdateRequest.State = Decoded [] prior_state\<rparr>
          \<lparr>UpdateResponse.State = Some prior_state, UpdateResponse.Diagnostics = []\<rparr>)
     = [Call_UpdateTodo ''0b5d2c1e-0000-4000-8000-000000000001''
          \<lparr>TodoUpdateParams.Text = Some ''water the garden'',
           TodoUpdateParams.Priority = Some ''medium'',
           TodoUpdateParams.Completed = Some False\<rparr>]"
    by (simp add: Update_calls update_plan_medium_def update_plan_def)
  have u2: "UpdateTodo echo_client ''0b5d2c1e-0000-4000-8000-000000000001''
          \<lparr>TodoUpdateParams.Text = Some ''water the garden'',
           TodoUpdateParams.Priority = Some ''medium'',
           TodoUpdateParams.Completed = Some False\<rparr>
     = Inr \<lparr>Todo.ID = ''0b5d2c1e-0000-4000-8000-000000000001'', Todo.Text = ''water the garden'',
            Todo.Priority = ''medium'', Todo.Completed = False,
            Todo.TimeCreated = ''2023-01-01 10:00:00 +0000 UTC'',
            Todo.TimeUpdated = ''2023-03-01 12:00:00 +0000 UTC''\<rparr>"
    by (simp add: echo_client_def echo_UpdateTodo_def stored_todo_def)
  note t = id_immutable_and_not_sent
             [where us = id and ts = id and client = echo_client
                and rreq = "\<lparr>ReadRequest.State = Decoded [] prior_state\<rparr>"
                and rresp = "\<lparr>ReadResponse.State = Some prior_state, ReadResponse.Diagnostics = []\<rparr>"
                and rid = "''0b5d2c1e-0000-4000-8000-000000000001''"
                and rtd = stored_todo
                and ureq = "\<lparr>UpdateRequest.Plan = Decoded [] update_plan_medium,
                              UpdateRequest.State = Decoded [] prior_state\<rparr>"
                and uresp = "\<lparr>UpdateResponse.State = Some prior_state, UpdateResponse.Diagnostics = []\<rparr>"
                and uid = "''0b5d2c1e-0000-4000-8000-000000000001''"
                and uparams = "\<lparr>TodoUpdateParams.Text = Some ''water the garden'',
                                 TodoUpdateParams.Priority = Some ''medium'',
                                 TodoUpdateParams.Completed = Some False\<rparr>"
                and utd = "\<lparr>Todo.ID = ''0b5d2c1e-0000-4000-8000-000000000001'', Todo.Text = ''water the garden'',
                             Todo.Priority = ''medium'', Todo.Completed = False,
                             Todo.TimeCreated = ''2023-01-01 10:00:00 +0000 UTC'',
                             Todo.TimeUpdated = ''2023-03-01 12:00:00 +0000 UTC''\<rparr>"
                and diags = "[]" and plan = update_plan_medium
                and prior = "Decoded [] prior_state"
                and cresp = "\<lparr>CreateResponse.State = None, CreateResponse.Diagnostics = []\<rparr>"
                and i' = "StringValue ''another-id''"
                and tc' = "StringValue ''2024-01-01 00:00:00 +0000 UTC''"
                and tu' = "StringValue ''2024-01-01 00:00:00 +0000 UTC''"]
  have rs: "ReadResponse.State (snd (todoResource_Read id id echo_client
          \<lparr>ReadRequest.State = Decoded [] prior_state\<rparr>
          \<lparr>ReadResponse.State = Some prior_state, ReadResponse.Diagnostics = []\<rparr>))
     = Some prior_state"
    using t r1 r2 by (simp add: prior_state_def stored_todo_def)
  have us: "UpdateResponse.State (snd (todoResource_Update id id echo_client
          \<lparr>UpdateRequest.Plan = Decoded [] update_plan_medium,
           UpdateRequest.State = Decoded [] prior_state\<rparr>
          \<lparr>UpdateResponse.State = Some prior_state, UpdateResponse.Diagnostics = []\<rparr>))
     = Some \<lparr>todoResourceModel.ID = StringValue ''0b5d2c1e-0000-4000-8000-000000000001'',
             todoResourceModel.Text = StringValue ''water the garden'',
             todoResourceModel.Priority = StringValue ''medium'',
             todoResourceModel.Completed = BoolValue False,
             todoResourceModel.TimeCreated = StringValue ''2023-01-01 10:00:00 +0000 UTC'',
             todoResourceModel.TimeUpdated = StringValue ''2023-03-01 12:00:00 +0000 UTC''\<rparr>"
    using t u1 u2 by (simp add: update_plan_medium_def update_plan_def)
  have c1: "Call_CreateTodo \<lparr>TodoCreateParams.Text = ''water the garden'', TodoCreateParams.Priority = ''medium''\<rparr>
     \<in> set (fst (todoResource_Create id id echo_client
          \<lparr>CreateRequest.Plan = Decoded [] update_plan_medium\<rparr>
          \<lparr>CreateResponse.State = None, CreateResponse.Diagnostics = []\<rparr>))"
    by (simp add: Create_calls update_plan_medium_def update_plan_def)
  have u3: "Call_UpdateTodo ''0b5d2c1e-0000-4000-8000-000000000001''
          \<lparr>TodoUpdateParams.Text = Some ''water the garden'',
           TodoUpdateParams.Priority = Some ''medium'',
           TodoUpdateParams.Completed = Some False\<rparr>
     \<in> set (fst (todoResource_Update id id echo_client
          \<lparr>UpdateRequest.Plan = Decoded [] update_plan_medium,
           UpdateRequest.State = Decoded [] prior_state\<rparr>
          \<lparr>UpdateResponse.State = Some prior_state, UpdateResponse.Diagnostics = []\<rparr>))"
    using u1 by simp
  have cb: "Call_CreateTodo \<lparr>TodoCreateParams.Text = ''water the garden'', TodoCreateParams.Priority = ''medium''\<rparr>
     \<in> set (fst (todoResource_Create id id echo_client
          \<lparr>CreateRequest.Plan = Decoded []
             (update_plan_medium\<lparr>todoResourceModel.ID := StringValue ''another-id'',
                todoResourceModel.TimeCreated := StringValue ''2024-01-01 00:00:00 +0000 UTC'',
                todoResourceModel.TimeUpdated := StringValue ''2024-01-01 00:00:00 +0000 UTC''\<rparr>)\<rparr>
          \<lparr>CreateResponse.State = None, CreateResponse.Diagnostics = []\<rparr>))"
    using t c1 by blast
  have ub: "Call_UpdateTodo (ValueString (StringValue ''another-id''))
       \<lparr>TodoUpdateParams.Text = Some ''water the garden'',
        TodoUpdateParams.Priority = Some ''medium'',
        TodoUpdateParams.Completed = Some False\<rparr>
     \<in> set (fst (todoResource_Update id id echo_client
          \<lparr>UpdateRequest.Plan = Decoded []
             (update_plan_medium\<lparr>todoResourceModel.ID := StringValue ''another-id'',
                todoResourceModel.TimeCreated := StringValue ''2024-01-01 00:00:00 +0000 UTC'',
                todoResourceModel.TimeUpdated := StringValue ''2024-01-01 00:00:00 +0000 UTC''\<rparr>),
           UpdateRequest.State = Decoded [] prior_state\<rparr>
          \<lparr>UpdateResponse.State = Some prior_state, UpdateResponse.Diagnostics = []\<rparr>))"
    using t u3 by blast
  show ?thesis
    using r1 r2 rs u1 u2 us cb ub unfolding ValueString.simps by blast
qed

text \<open>
  Claim C1 says that an update request holds text, priority and completed, and that a
  priority or completed flag that is unset in the plan is submitted with its current
  effective value, never empty. The second part does not hold. In the instance below
  the plan leaves priority null and completed unknown, the item's current priority is
  "high" and it is completed; the request that \<^verbatim>\<open>Update\<close> sends carries the empty
  string as priority and \<^verbatim>\<open>false\<close> as completed.
\<close>

theorem Update_unset_fields_counterexample:
  "todoResourceModel.Priority update_plan = StringNull \<and>
   todoResourceModel.Completed update_plan = BoolUnknown \<and>
   todoResourceModel.Priority prior_state = StringValue ''high'' \<and>
   todoResourceModel.Completed prior_state = BoolValue True \<and>
   fst (todoResource_Update id id echo_client
          \<lparr>UpdateRequest.Plan = Decoded [] update_plan,
           UpdateRequest.State = Decoded [] prior_state\<rparr>
          \<lparr>UpdateResponse.State = Some prior_state, UpdateResponse.Diagnostics = []\<rparr>)
     = [Call_UpdateTodo ''0b5d2c1e-0000-4000-8000-000000000001''
          \<lparr>TodoUpdateParams.Text = Some ''water the garden'',
           TodoUpdateParams.Priority = Some [],
           TodoUpdateParams.Completed = Some False\<rparr>]"
  by (simp add: Update_calls update_plan_def prior_state_def)

text \<open>
  Claim C1, amended. An \<^verbatim>\<open>Update\<close> that is not stopped by an earlier error sends exactly
  one update request, for the plan's id, and the request holds all three of text,
  priority and completed, none left out. The values are read from the plan: a priority
  or completed flag that is known in the plan is submitted as it is, and a completed
  flag that is null or unknown is submitted as \<^verbatim>\<open>false\<close>. The prior state, in the request
  or in the response handed in, has no influence on what is sent.
\<close>

theorem Update_request_from_plan:
  "(\<not> HasError (Append (UpdateResponse.Diagnostics resp) diags) \<longrightarrow>
      (\<exists>p c. fst (todoResource_Update us ts client
                    \<lparr>UpdateRequest.Plan = Decoded diags plan, UpdateRequest.State = prior\<rparr> resp) =
               [Call_UpdateTodo (ValueString (todoResourceModel.ID plan))
                  \<lparr>TodoUpdateParams.Text = Some (ValueString (todoResourceModel.Text plan)),
                   TodoUpdateParams.Priority = Some p,
                   TodoUpdateParams.Completed = Some c\<rparr>] \<and>
             (\<forall>v. todoResourceModel.Priority plan = StringValue v \<longrightarrow> p = v) \<and>
             (\<forall>b. todoResourceModel.Completed plan = BoolValue b \<longrightarrow> c = b) \<and>
             (todoResourceModel.Completed plan = BoolNull \<or>
              todoResourceModel.Completed plan = BoolUnknown \<longrightarrow> c = False)))
   \<and> fst (todoResource_Update us ts client
            \<lparr>UpdateRequest.Plan = Decoded diags plan, UpdateRequest.State = prior'\<rparr>
            (resp\<lparr>UpdateResponse.State := s'\<rparr>))
       = fst (todoResource_Update us ts client
            \<lparr>UpdateRequest.Plan = Decoded diags plan, UpdateRequest.State = prior\<rparr> resp)"
  unfolding Update_calls by auto

theorem Update_request_from_plan_witness:
  "fst (todoResource_Update id id echo_client
          \<lparr>UpdateRequest.Plan = Decoded [] update_plan_medium,
           UpdateRequest.State = Decoded [] prior_state\<rparr>
          \<lparr>UpdateResponse.State = Some prior_state, UpdateResponse.Diagnostics = []\<rparr>)
     = [Call_UpdateTodo ''0b5d2c1e-0000-4000-8000-000000000001''
          \<lparr>TodoUpdateParams.Text = Some ''water the garden'',
           TodoUpdateParams.Priority = Some ''medium'',
           TodoUpdateParams.Completed = Some False\<rparr>]"
  using Update_request_from_plan
          [where us = id and ts = id and client = echo_client and diags = "[]"
             and plan = update_plan_medium and prior = "Decoded [] prior_state"
             and prior' = "Decoded [] prior_state" and s' = "Some prior_state"
             and resp = "\<lparr>UpdateResponse.State = Some prior_state, UpdateResponse.Diagnostics = []\<rparr>"]
  by (auto simp: update_plan_medium_def update_plan_def)

section \<open>The todos data source: the claim\<close>

text \<open>
  Claim C7 says that the data source's \<^verbatim>\<open>Read\<close> sets the state to the API's list
  converted item by item, with the placeholder id, and that an answer with no item gives
  an empty collection. The last part does not hold. With no item the loop never appends,
  \<^verbatim>\<open>state.Todos\<close> is still the nil slice of the zero value, and the state that is
  stored holds the null list, which is not the empty list.
\<close>

theorem todosDataSource_Read_no_items_counterexample:
  "ListTodos empty_client = Inr [] \<and>
   datasource_ReadResponse.State (snd (todosDataSource_Read id id empty_client
       \<lparr>datasource_ReadResponse.State = None, datasource_ReadResponse.Diagnostics = []\<rparr>)) =
     Some \<lparr>todosDataSourceState.ID = StringValue ''todos_id_placeholder'',
           todosDataSourceState.Todos = ListNull\<rparr> \<and>
   datasource_ReadResponse.State (snd (todosDataSource_Read id id empty_client
       \<lparr>datasource_ReadResponse.State = None, datasource_ReadResponse.Diagnostics = []\<rparr>)) \<noteq>
     Some \<lparr>todosDataSourceState.ID = StringValue ''todos_id_placeholder'',
           todosDataSourceState.Todos = ListValue []\<rparr>"
  by (simp add: empty_client_def todosDataSource_Read_def Let_def datasource_State_Set_def)

text \<open>
  Claim C7, amended. When the API returns a list, the data source's \<^verbatim>\<open>Read\<close> makes the
  one call \<^verbatim>\<open>ListTodos\<close> and sets the state; the result-set id is
  \<^verbatim>\<open>todos_id_placeholder\<close> on every invocation. When the list has at least one item,
  the stored collection is the list of the items converted one by one, in the order of
  the API's list, each to its id, text, priority, completed flag and two timestamps.
  When the list has no item, the stored collection is null.
\<close>

theorem todosDataSource_Read_maps_list:
  assumes "ListTodos client = Inr todos"
  shows "fst (todosDataSource_Read us ts client resp) = [Call_ListTodos] \<and>
         (\<exists>stored. snd (todosDataSource_Read us ts client resp) =
             resp\<lparr>datasource_ReadResponse.State := Some
               \<lparr>todosDataSourceState.ID = StringValue ''todos_id_placeholder'',
                todosDataSourceState.Todos = stored\<rparr>\<rparr> \<and>
           (todos \<noteq> [] \<longrightarrow>
              stored = ListValue
                (map (\<lambda>todo. \<lparr>todosModel.ID = StringValue (us (Todo.ID todo)),
                         todosModel.Text = StringValue (Todo.Text todo),
                         todosModel.Priority = StringValue (Todo.Priority todo),
                         todosModel.Completed = BoolValue (Todo.Completed todo),
                         todosModel.TimeCreated = StringValue (ts (Todo.TimeCreated todo)),
                         todosModel.TimeUpdated = StringValue (ts (Todo.TimeUpdated todo))\<rparr>) todos)) \<and>
           (todos = [] \<longrightarrow> stored = ListNull))"
  using assms by (simp add: datasource_Read_success)

theorem todosDataSource_Read_maps_list_witness:
  "ListTodos echo_client =
     Inr [stored_todo, stored_todo\<lparr>Todo.Text := ''buy milk'', Todo.Completed := False\<rparr>] \<and>
   datasource_ReadResponse.State (snd (todosDataSource_Read id id echo_client
       \<lparr>datasource_ReadResponse.State = None, datasource_ReadResponse.Diagnostics = []\<rparr>)) =
     Some \<lparr>todosDataSourceState.ID = StringValue ''todos_id_placeholder'',
           todosDataSourceState.Todos = ListValue
             [\<lparr>todosModel.ID = StringValue ''0b5d2c1e-0000-4000-8000-000000000001'',
               todosModel.Text = StringValue ''water the plants'',
               todosModel.Priority = StringValue ''high'',
               todosModel.Completed = BoolValue True,
               todosModel.TimeCreated = StringValue ''2023-01-01 10:00:00 +0000 UTC'',
               todosModel.TimeUpdated = StringValue ''2023-01-02 11:30:00 +0000 UTC''\<rparr>,
              \<lparr>todosModel.ID = StringValue ''0b5d2c1e-0000-4000-8000-000000000001'',
               todosModel.Text = StringValue ''buy milk'',
               todosModel.Priority = StringValue ''high'',
               todosModel.Completed = BoolValue False,
               todosModel.TimeCreated = StringValue ''2023-01-01 10:00:00 +0000 UTC'',
               todosModel.TimeUpdated = StringValue ''2023-01-02 11:30:00 +0000 UTC''\<rparr>]\<rparr> \<and>
   ListTodos empty_client = Inr [] \<and>
   datasource_ReadResponse.State (snd (todosDataSource_Read id id empty_client
       \<lparr>datasource_ReadResponse.State = None, datasource_ReadResponse.Diagnostics = []\<rparr>)) =
     Some \<lparr>todosDataSourceState.ID = StringValue ''todos_id_placeholder'',
           todosDataSourceState.Todos = ListNull\<rparr>"
proof -
  have l1: "ListTodos echo_client =
     Inr [stored_todo, stored_todo\<lparr>Todo.Text := ''buy milk'', Todo.Completed := False\<rparr>]"
    by (simp add: echo_client_def)
  have l2: "ListTodos empty_client = Inr []"
    by (simp add: empty_client_def)
  show ?thesis
    using l1 l2
      todosDataSource_Read_maps_list [OF l1, where us = id and ts = id
        and resp = "\<lparr>datasource_ReadResponse.State = None, datasource_ReadResponse.Diagnostics = []\<rparr>"]
      todosDataSource_Read_maps_list [OF l2, where us = id and ts = id
        and resp = "\<lparr>datasource_ReadResponse.State = None, datasource_ReadResponse.Diagnostics = []\<rparr>"]
    by (auto simp: stored_todo_def)
qed

end
